theory Spec2Isabelle
  imports Main "HOL-Library.Word" "HOL-Library.Sublist"
begin

section \<open>Error codes and the application error type\<close>

text \<open>
  The error-code constants of package \<open>errors\<close> (Go \<open>int\<close> constants) and the
  \<open>AppError\<close> struct of \<open>internal/errors/errors.go\<close>.
\<close>

definition CodeSuccess :: int where "CodeSuccess = 0"
definition CodeInvalidParams :: int where "CodeInvalidParams = 40001"
definition CodeInvalidRequest :: int where "CodeInvalidRequest = 40002"
definition CodeUnauthorized :: int where "CodeUnauthorized = 40101"
definition CodeTokenExpired :: int where "CodeTokenExpired = 40102"
definition CodeInvalidToken :: int where "CodeInvalidToken = 40103"
definition CodeForbidden :: int where "CodeForbidden = 40301"
definition CodeAccountBlocked :: int where "CodeAccountBlocked = 40302"
definition CodeNotFound :: int where "CodeNotFound = 40401"
definition CodeUserNotFound :: int where "CodeUserNotFound = 40402"
definition CodeAccountNotFound :: int where "CodeAccountNotFound = 40403"
definition CodeAlreadyExists :: int where "CodeAlreadyExists = 40901"
definition CodeUsernameExists :: int where "CodeUsernameExists = 40902"
definition CodeEmailExists :: int where "CodeEmailExists = 40903"
definition CodeInsufficientBalance :: int where "CodeInsufficientBalance = 42201"
definition CodeCurrencyMismatch :: int where "CodeCurrencyMismatch = 42202"
definition CodeSameAccount :: int where "CodeSameAccount = 42203"
definition CodePasswordWrong :: int where "CodePasswordWrong = 42204"
definition CodeInternalError :: int where "CodeInternalError = 50001"
definition CodeDatabaseError :: int where "CodeDatabaseError = 50002"

text \<open>\<open>codeMessages\<close> and \<open>GetMessage\<close>: the default message of a code.\<close>

definition codeMessages :: "(int \<times> string) list" where
  "codeMessages =
    [(CodeSuccess, ''success''),
     (CodeInvalidParams, ''invalid parameters''),
     (CodeInvalidRequest, ''invalid request format''),
     (CodeUnauthorized, ''unauthorized''),
     (CodeTokenExpired, ''token expired''),
     (CodeInvalidToken, ''invalid token''),
     (CodeForbidden, ''access forbidden''),
     (CodeAccountBlocked, ''account blocked''),
     (CodeNotFound, ''resource not found''),
     (CodeUserNotFound, ''user not found''),
     (CodeAccountNotFound, ''account not found''),
     (CodeAlreadyExists, ''resource already exists''),
     (CodeUsernameExists, ''username already exists''),
     (CodeEmailExists, ''email already exists''),
     (CodeInsufficientBalance, ''insufficient balance''),
     (CodeCurrencyMismatch, ''currency mismatch''),
     (CodeSameAccount, ''cannot transfer to same account''),
     (CodePasswordWrong, ''wrong password''),
     (CodeInternalError, ''internal server error''),
     (CodeDatabaseError, ''database error'')]"

definition GetMessage :: "int \<Rightarrow> string" where
  "GetMessage code =
    (case map_of codeMessages code of Some msg \<Rightarrow> msg | None \<Rightarrow> ''unknown error'')"

text \<open>Go's integer division truncates towards zero; \<open>div\<close> on \<open>int\<close> rounds down.\<close>

definition go_div :: "int \<Rightarrow> int \<Rightarrow> int" where
  "go_div a b = sgn a * sgn b * (\<bar>a\<bar> div \<bar>b\<bar>)"

text \<open>
  \<open>codeToHTTPStatus\<close>: the first three digits of the code are the HTTP status when
  they are one of the listed statuses, 500 otherwise.
\<close>

definition codeToHTTPStatus :: "int \<Rightarrow> int" where
  "codeToHTTPStatus code =
    (if code = CodeSuccess then 200
     else let httpCode = go_div code 100 in
       if httpCode \<in> {400, 401, 403, 404, 409, 422} then httpCode
       else if httpCode \<in> {500, 502, 503} then httpCode
       else 500)"

record AppError =
  Code :: int
  Message :: string
  HTTPStatus :: int

definition New :: "int \<Rightarrow> AppError" where
  "New code = \<lparr>Code = code, Message = GetMessage code, HTTPStatus = codeToHTTPStatus code\<rparr>"

definition NewWithMessage :: "int \<Rightarrow> string \<Rightarrow> AppError" where
  "NewWithMessage code message =
    \<lparr>Code = code, Message = message, HTTPStatus = codeToHTTPStatus code\<rparr>"


section \<open>The data model\<close>

text \<open>
  The structs of package \<open>model\<close>. Identifiers are Go \<open>uint\<close> values that the code only
  compares, so they are natural numbers; balances and amounts are \<open>int64\<close>, read as two's
  complement through \<open>sint\<close>. The time stamps of the rows, the soft-delete mark of an
  account and the association fields are left out: no operation below reads or sets them.
  The \<open>users\<close> table, to which the owner of an account refers, is not part of the model.
\<close>

type_synonym int64 = "64 word"

record Account =
  ID :: nat
  Owner :: string
  Balance :: int64
  Currency :: string

record Transfer =
  Transfer_ID :: nat
  FromAccountID :: nat
  ToAccountID :: nat
  Amount :: int64

record Entry =
  Entry_ID :: nat
  AccountID :: nat
  Entry_Amount :: int64

text \<open>The request and response structs of packages \<open>request\<close> and \<open>response\<close>.\<close>

record CreateAccountRequest =
  Acc_Currency :: string

record CreateTransferRequest =
  Req_FromAccountID :: nat
  Req_ToAccountID :: nat
  Req_Amount :: int64
  Req_Currency :: string

record AccountResponse =
  AResp_ID :: nat
  AResp_Owner :: string
  AResp_Balance :: int64
  AResp_Currency :: string

record TransferResponse =
  Resp_ID :: nat
  Resp_FromAccountID :: nat
  Resp_ToAccountID :: nat
  Resp_Amount :: int64

record ErrorResponse =
  Err_Code :: int
  Err_Message :: string

section \<open>The database\<close>

text \<open>
  The three tables of \<open>db/migration/000001_init_schema.up.sql\<close>, with the constraints
  the schema declares: the primary keys are generated, \<open>accounts\<close> has a unique index
  on (owner, currency), \<open>entries.account_id\<close> and both account columns of
  \<open>transfers\<close> are foreign keys into \<open>accounts\<close>, \<open>transfers.amount\<close> has the
  check \<open>amount > 0\<close>, and every amount column is a \<open>BIGINT\<close>, whose arithmetic
  fails on overflow instead of wrapping.
\<close>

record Tables =
  accounts :: "Account list"
  transfers :: "Transfer list"
  entries :: "Entry list"

text \<open>The errors a statement can end with: two of GORM's own, or one from the driver.\<close>

datatype gorm_error = ErrRecordNotFound | ErrDuplicatedKey | DriverError string

fun Error_text :: "gorm_error \<Rightarrow> string" where
  "Error_text ErrRecordNotFound = ''record not found''"
| "Error_text ErrDuplicatedKey = ''duplicated key not allowed''"
| "Error_text (DriverError msg) = msg"

text \<open>The statements the repositories send.\<close>

datatype Statement =
    SelectAccount nat
  | SelectAccountOfOwner string string
  | InsertAccount string int64 string
  | InsertTransfer nat nat int64
  | InsertEntry nat int64
  | UpdateAccountBalance nat int64

definition next_id :: "nat list \<Rightarrow> nat" where
  "next_id ids = Suc (fold max ids 0)"

definition selectAccount :: "nat \<Rightarrow> Tables \<Rightarrow> gorm_error + (Account \<times> Tables)" where
  "selectAccount i t =
    (case find (\<lambda>a. ID a = i) (accounts t) of
       None \<Rightarrow> Inl ErrRecordNotFound
     | Some a \<Rightarrow> Inr (a, t))"

definition selectAccountOfOwner ::
  "string \<Rightarrow> string \<Rightarrow> Tables \<Rightarrow> gorm_error + (Account \<times> Tables)" where
  "selectAccountOfOwner owner currency t =
    (case find (\<lambda>a. Owner a = owner \<and> Currency a = currency) (accounts t) of
       None \<Rightarrow> Inl ErrRecordNotFound
     | Some a \<Rightarrow> Inr (a, t))"

text \<open>
  The connection is opened without GORM's error translation, so a unique-index violation
  reaches the repository as the driver's error, not as \<open>ErrDuplicatedKey\<close>.
\<close>

definition insertAccount ::
  "string \<Rightarrow> int64 \<Rightarrow> string \<Rightarrow> Tables \<Rightarrow> gorm_error + (Account \<times> Tables)" where
  "insertAccount owner balance currency t =
    (if list_ex (\<lambda>a. Owner a = owner \<and> Currency a = currency) (accounts t)
     then Inl (DriverError ''duplicate entry for idx_accounts_owner_currency'')
     else let a = \<lparr>ID = next_id (map ID (accounts t)), Owner = owner,
                     Balance = balance, Currency = currency\<rparr>
          in Inr (a, t\<lparr>accounts := accounts t @ [a]\<rparr>))"

definition account_exists :: "nat \<Rightarrow> Tables \<Rightarrow> bool" where
  "account_exists i t = list_ex (\<lambda>a. ID a = i) (accounts t)"

definition insertTransfer ::
  "nat \<Rightarrow> nat \<Rightarrow> int64 \<Rightarrow> Tables \<Rightarrow> gorm_error + (Transfer \<times> Tables)" where
  "insertTransfer from to amount t =
    (if \<not> account_exists from t then Inl (DriverError ''fk_transfers_from_account fails'')
     else if \<not> account_exists to t then Inl (DriverError ''fk_transfers_to_account fails'')
     else if \<not> 0 < sint amount then Inl (DriverError ''chk_transfers_amount_positive is violated'')
     else let r = \<lparr>Transfer_ID = next_id (map Transfer_ID (transfers t)),
                     FromAccountID = from, ToAccountID = to, Amount = amount\<rparr>
          in Inr (r, t\<lparr>transfers := transfers t @ [r]\<rparr>))"

definition insertEntry :: "nat \<Rightarrow> int64 \<Rightarrow> Tables \<Rightarrow> gorm_error + (Entry \<times> Tables)" where
  "insertEntry account amount t =
    (if \<not> account_exists account t then Inl (DriverError ''fk_entries_account fails'')
     else let e = \<lparr>Entry_ID = next_id (map Entry_ID (entries t)),
                     AccountID = account, Entry_Amount = amount\<rparr>
          in Inr (e, t\<lparr>entries := entries t @ [e]\<rparr>))"

definition int64_range :: "int \<Rightarrow> bool" where
  "int64_range k \<longleftrightarrow> - (2 ^ 63) \<le> k \<and> k < 2 ^ 63"

definition credit :: "nat \<Rightarrow> int64 \<Rightarrow> Account \<Rightarrow> Account" where
  "credit i delta a = (if ID a = i then a\<lparr>Balance := Balance a + delta\<rparr> else a)"

definition credit_fits :: "nat \<Rightarrow> int64 \<Rightarrow> Account \<Rightarrow> bool" where
  "credit_fits i delta a =
    (if ID a = i then int64_range (sint (Balance a) + sint delta) else True)"

text \<open>
  \<open>UPDATE accounts SET balance = balance + ? WHERE id = ?\<close>. A row that matches no
  account is not an error of the statement; a sum outside \<open>BIGINT\<close> is.
\<close>

definition updateAccountBalance ::
  "nat \<Rightarrow> int64 \<Rightarrow> Tables \<Rightarrow> gorm_error + (unit \<times> Tables)" where
  "updateAccountBalance i delta t =
    (if list_all (credit_fits i delta) (accounts t)
     then Inr ((), t\<lparr>accounts := map (credit i delta) (accounts t)\<rparr>)
     else Inl (DriverError ''BIGINT value is out of range''))"

text \<open>The effect of a statement on the tables, whatever it returns.\<close>

definition effect :: "(Tables \<Rightarrow> gorm_error + ('a \<times> Tables)) \<Rightarrow> Tables \<Rightarrow> Tables" where
  "effect run t = (case run t of Inl e \<Rightarrow> t | Inr (x, t') \<Rightarrow> t')"

fun perform :: "Statement \<Rightarrow> Tables \<Rightarrow> Tables" where
  "perform (SelectAccount i) t = effect (selectAccount i) t"
| "perform (SelectAccountOfOwner owner currency) t =
     effect (selectAccountOfOwner owner currency) t"
| "perform (InsertAccount owner balance currency) t =
     effect (insertAccount owner balance currency) t"
| "perform (InsertTransfer from to amount) t = effect (insertTransfer from to amount) t"
| "perform (InsertEntry account amount) t = effect (insertEntry account amount) t"
| "perform (UpdateAccountBalance i delta) t = effect (updateAccountBalance i delta) t"

section \<open>Connections, statements and transactions\<close>

text \<open>
  A \<open>*gorm.DB\<close> value is either the handle of the connection pool, on which every
  statement is its own committed unit, or the handle of an open transaction, whose
  statements are kept apart until the transaction commits and are dropped when it rolls
  back.
\<close>

datatype handle = Pool | Tx

text \<open>
  The database: the committed tables, the statements of the open transaction, the
  outcomes of the statements still to come (\<open>True\<close>: the driver fails, for instance on a
  lost connection; no entry: it does not), and the statements received so far.
\<close>

record Database =
  tables :: Tables
  txWrites :: "Statement list"
  faults :: "bool list"
  journal :: "Statement list"

definition replay :: "Statement list \<Rightarrow> Tables \<Rightarrow> Tables" where
  "replay qs t = fold perform qs t"

definition viewOf :: "handle \<Rightarrow> Database \<Rightarrow> Tables" where
  "viewOf h d = (case h of Pool \<Rightarrow> tables d | Tx \<Rightarrow> replay (txWrites d) (tables d))"

definition issue :: "Statement \<Rightarrow> Database \<Rightarrow> bool \<times> Database" where
  "issue q d =
    (case faults d of
       [] \<Rightarrow> (False, d\<lparr>journal := journal d @ [q]\<rparr>)
     | f # fs \<Rightarrow> (f, d\<lparr>faults := fs, journal := journal d @ [q]\<rparr>))"

text \<open>
  The driver fails on the \<open>i\<close>-th of the statements to come (counted from 0); and the
  database once it has taken one more statement: the statement is in the journal and its
  outcome is used up.
\<close>

definition driver_fails :: "bool list \<Rightarrow> nat \<Rightarrow> bool" where
  "driver_fails fs i \<longleftrightarrow> i < length fs \<and> fs ! i"

definition received :: "Statement \<Rightarrow> Database \<Rightarrow> Database" where
  "received q d = d\<lparr>faults := drop 1 (faults d), journal := journal d @ [q]\<rparr>"

definition store :: "handle \<Rightarrow> Statement \<Rightarrow> Tables \<Rightarrow> Database \<Rightarrow> Database" where
  "store h q t' d =
    (case h of Pool \<Rightarrow> d\<lparr>tables := t'\<rparr> | Tx \<Rightarrow> d\<lparr>txWrites := txWrites d @ [q]\<rparr>)"

text \<open>
  One statement \<open>q\<close>, whose meaning on the tables is \<open>run\<close>, sent through handle \<open>h\<close>.
\<close>

definition exec ::
  "handle \<Rightarrow> Statement \<Rightarrow> (Tables \<Rightarrow> gorm_error + ('a \<times> Tables)) \<Rightarrow> Database
    \<Rightarrow> (gorm_error + 'a) \<times> Database" where
  "exec h q run d =
    (case issue q d of
       (True, d1) \<Rightarrow> (Inl (DriverError ''driver: bad connection''), d1)
     | (False, d1) \<Rightarrow>
         (case run (viewOf h d1) of
            Inl e \<Rightarrow> (Inl e, d1)
          | Inr (x, t') \<Rightarrow> (Inr x, store h q t' d1)))"

text \<open>
  \<open>GormTxManager.Transaction\<close>, that is GORM's \<open>db.Transaction(fc)\<close>: begin, call
  \<open>fc\<close> with the transaction's handle, commit when it returns no error and roll back
  otherwise, returning the error of \<open>fc\<close>. Begin and commit themselves are taken to
  succeed.
\<close>

definition Transaction ::
  "(handle \<Rightarrow> Database \<Rightarrow> ('e + 'a) \<times> Database) \<Rightarrow> Database \<Rightarrow> ('e + 'a) \<times> Database" where
  "Transaction fc d =
    (case fc Tx (d\<lparr>txWrites := []\<rparr>) of
       (Inr x, d') \<Rightarrow> (Inr x, d'\<lparr>tables := replay (txWrites d') (tables d'), txWrites := []\<rparr>)
     | (Inl err, d') \<Rightarrow> (Inl err, d'\<lparr>txWrites := []\<rparr>))"

section \<open>Application errors built from the codes\<close>

definition Wrap :: "int \<Rightarrow> gorm_error \<Rightarrow> AppError" where
  "Wrap code err =
    \<lparr>Code = code, Message = Error_text err, HTTPStatus = codeToHTTPStatus code\<rparr>"

definition ErrInvalidParams :: "string \<Rightarrow> AppError" where
  "ErrInvalidParams message = NewWithMessage CodeInvalidParams message"

definition ErrUnauthorized :: AppError where
  "ErrUnauthorized = New CodeUnauthorized"

definition ErrAccountNotFound :: AppError where
  "ErrAccountNotFound = New CodeAccountNotFound"

definition ErrInsufficientBalance :: AppError where
  "ErrInsufficientBalance = New CodeInsufficientBalance"

definition ErrCurrencyMismatch :: AppError where
  "ErrCurrencyMismatch = New CodeCurrencyMismatch"

definition ErrInternalServer :: AppError where
  "ErrInternalServer = New CodeInternalError"

definition ErrDatabase :: "gorm_error \<Rightarrow> AppError" where
  "ErrDatabase err = Wrap CodeDatabaseError err"

definition NewErrorResponse :: "AppError \<Rightarrow> ErrorResponse" where
  "NewErrorResponse err = \<lparr>Err_Code = Code err, Err_Message = Message err\<rparr>"

section \<open>The repositories\<close>

text \<open>
  Each repository struct holds one field, the handle \<open>db\<close> it was constructed with, and
  sends every statement through it (\<open>r.db.WithContext(ctx)\<close>).
\<close>

record Repository =
  db :: handle

definition AccountRepository_Create ::
  "Repository \<Rightarrow> string \<Rightarrow> int64 \<Rightarrow> string \<Rightarrow> Database \<Rightarrow> (AppError + Account) \<times> Database" where
  "AccountRepository_Create r owner balance currency d =
    (case exec (db r) (InsertAccount owner balance currency)
            (insertAccount owner balance currency) d of
       (Inl e, d') \<Rightarrow>
         (if e = ErrDuplicatedKey
          then (Inl (NewWithMessage CodeAlreadyExists
                      ''account with this currency already exists''), d')
          else (Inl (ErrDatabase e), d'))
     | (Inr a, d') \<Rightarrow> (Inr a, d'))"

definition AccountRepository_GetByID ::
  "Repository \<Rightarrow> nat \<Rightarrow> Database \<Rightarrow> (AppError + Account) \<times> Database" where
  "AccountRepository_GetByID r i d =
    (case exec (db r) (SelectAccount i) (selectAccount i) d of
       (Inl e, d') \<Rightarrow>
         (if e = ErrRecordNotFound then (Inl ErrAccountNotFound, d')
          else (Inl (ErrDatabase e), d'))
     | (Inr a, d') \<Rightarrow> (Inr a, d'))"

definition AccountRepository_GetByOwnerAndCurrency ::
  "Repository \<Rightarrow> string \<Rightarrow> string \<Rightarrow> Database \<Rightarrow> (AppError + Account) \<times> Database" where
  "AccountRepository_GetByOwnerAndCurrency r owner currency d =
    (case exec (db r) (SelectAccountOfOwner owner currency)
            (selectAccountOfOwner owner currency) d of
       (Inl e, d') \<Rightarrow>
         (if e = ErrRecordNotFound then (Inl ErrAccountNotFound, d')
          else (Inl (ErrDatabase e), d'))
     | (Inr a, d') \<Rightarrow> (Inr a, d'))"

text \<open>
  \<open>UpdateBalance\<close>: the update statement, then a second statement that reads the row
  back; an error of either is a database error.
\<close>

definition AccountRepository_UpdateBalance ::
  "Repository \<Rightarrow> nat \<Rightarrow> int64 \<Rightarrow> Database \<Rightarrow> (AppError + Account) \<times> Database" where
  "AccountRepository_UpdateBalance r i amount d =
    (case exec (db r) (UpdateAccountBalance i amount) (updateAccountBalance i amount) d of
       (Inl e, d') \<Rightarrow> (Inl (ErrDatabase e), d')
     | (Inr u, d') \<Rightarrow>
         (case exec (db r) (SelectAccount i) (selectAccount i) d' of
            (Inl e, d'') \<Rightarrow> (Inl (ErrDatabase e), d'')
          | (Inr a, d'') \<Rightarrow> (Inr a, d'')))"

definition TransferRepository_Create ::
  "Repository \<Rightarrow> nat \<Rightarrow> nat \<Rightarrow> int64 \<Rightarrow> Database \<Rightarrow> (AppError + Transfer) \<times> Database" where
  "TransferRepository_Create r from to amount d =
    (case exec (db r) (InsertTransfer from to amount) (insertTransfer from to amount) d of
       (Inl e, d') \<Rightarrow> (Inl (ErrDatabase e), d')
     | (Inr row, d') \<Rightarrow> (Inr row, d'))"

definition EntryRepository_Create ::
  "Repository \<Rightarrow> nat \<Rightarrow> int64 \<Rightarrow> Database \<Rightarrow> (AppError + Entry) \<times> Database" where
  "EntryRepository_Create r account amount d =
    (case exec (db r) (InsertEntry account amount) (insertEntry account amount) d of
       (Inl e, d') \<Rightarrow> (Inl (ErrDatabase e), d')
     | (Inr row, d') \<Rightarrow> (Inr row, d'))"

section \<open>The transfer service\<close>

text \<open>
  \<open>TransferService\<close> holds its three repositories; its transaction manager is
  \<open>Transaction\<close> above. \<open>setupHTTPServer\<close> constructs every repository, and the
  transaction manager, with the one handle \<open>a.db\<close> of the connection pool.
\<close>

record TransferService =
  accountRepo :: Repository
  transferRepo :: Repository
  entryRepo :: Repository

definition NewRepository :: "handle \<Rightarrow> Repository" where
  "NewRepository h = \<lparr>db = h\<rparr>"

definition NewTransferService ::
  "Repository \<Rightarrow> Repository \<Rightarrow> Repository \<Rightarrow> TransferService" where
  "NewTransferService accountRepo' transferRepo' entryRepo' =
    \<lparr>accountRepo = accountRepo', transferRepo = transferRepo', entryRepo = entryRepo'\<rparr>"

definition transferService :: TransferService where
  "transferService =
    NewTransferService (NewRepository Pool) (NewRepository Pool) (NewRepository Pool)"

record TransferResult =
  Result_Transfer :: Transfer
  Result_FromAccount :: Account
  Result_ToAccount :: Account
  Result_FromEntry :: Entry
  Result_ToEntry :: Entry

definition toTransferResponse :: "Transfer \<Rightarrow> TransferResponse" where
  "toTransferResponse transfer =
    \<lparr>Resp_ID = Transfer_ID transfer, Resp_FromAccountID = FromAccountID transfer,
     Resp_ToAccountID = ToAccountID transfer, Resp_Amount = Amount transfer\<rparr>"

text \<open>\<open>addMoney\<close>: the two balance updates, in the order of its arguments.\<close>

definition addMoney ::
  "TransferService \<Rightarrow> nat \<Rightarrow> int64 \<Rightarrow> nat \<Rightarrow> int64 \<Rightarrow> Database
    \<Rightarrow> (AppError + Account \<times> Account) \<times> Database" where
  "addMoney s accountID1 amount1 accountID2 amount2 d =
    (case AccountRepository_UpdateBalance (accountRepo s) accountID1 amount1 d of
       (Inl err, d1) \<Rightarrow> (Inl err, d1)
     | (Inr account1, d1) \<Rightarrow>
         (case AccountRepository_UpdateBalance (accountRepo s) accountID2 amount2 d1 of
            (Inl err, d2) \<Rightarrow> (Inl err, d2)
          | (Inr account2, d2) \<Rightarrow> (Inr (account1, account2), d2)))"

text \<open>
  \<open>execTransfer\<close>: the transfer row, the two entries, then the two balance updates,
  lower account identifier first. The Go function fills \<open>result\<close> as it goes and returns
  the error; here the filled result is the value returned when there is no error.
  \<open>- amount\<close> is Go's \<open>int64\<close> negation, which wraps.
\<close>

definition execTransfer ::
  "TransferService \<Rightarrow> nat \<Rightarrow> nat \<Rightarrow> int64 \<Rightarrow> Database
    \<Rightarrow> (AppError + TransferResult) \<times> Database" where
  "execTransfer s fromAccountID toAccountID amount d =
    (case TransferRepository_Create (transferRepo s) fromAccountID toAccountID amount d of
       (Inl err, d1) \<Rightarrow> (Inl err, d1)
     | (Inr transfer, d1) \<Rightarrow>
     (case EntryRepository_Create (entryRepo s) fromAccountID (- amount) d1 of
       (Inl err, d2) \<Rightarrow> (Inl err, d2)
     | (Inr fromEntry, d2) \<Rightarrow>
     (case EntryRepository_Create (entryRepo s) toAccountID amount d2 of
       (Inl err, d3) \<Rightarrow> (Inl err, d3)
     | (Inr toEntry, d3) \<Rightarrow>
     (if fromAccountID < toAccountID
      then (case addMoney s fromAccountID (- amount) toAccountID amount d3 of
              (Inl err, d4) \<Rightarrow> (Inl err, d4)
            | (Inr (fromAccount, toAccount), d4) \<Rightarrow>
                (Inr \<lparr>Result_Transfer = transfer, Result_FromAccount = fromAccount,
                      Result_ToAccount = toAccount, Result_FromEntry = fromEntry,
                      Result_ToEntry = toEntry\<rparr>, d4))
      else (case addMoney s toAccountID amount fromAccountID (- amount) d3 of
              (Inl err, d4) \<Rightarrow> (Inl err, d4)
            | (Inr (toAccount, fromAccount), d4) \<Rightarrow>
                (Inr \<lparr>Result_Transfer = transfer, Result_FromAccount = fromAccount,
                      Result_ToAccount = toAccount, Result_FromEntry = fromEntry,
                      Result_ToEntry = toEntry\<rparr>, d4))))))"

text \<open>
  \<open>TransferService.CreateTransfer\<close>. The function passed to \<open>Transaction\<close> does not use
  the handle \<open>tx\<close> it receives: \<open>execTransfer\<close> works through the repositories of the
  service.
\<close>

definition CreateTransfer ::
  "TransferService \<Rightarrow> string \<Rightarrow> CreateTransferRequest \<Rightarrow> Database
    \<Rightarrow> (AppError + TransferResponse) \<times> Database" where
  "CreateTransfer s owner req d =
    (case AccountRepository_GetByID (accountRepo s) (Req_FromAccountID req) d of
       (Inl err, d1) \<Rightarrow> (Inl err, d1)
     | (Inr fromAccount, d1) \<Rightarrow>
     (if Owner fromAccount \<noteq> owner then (Inl ErrUnauthorized, d1)
      else
     (case AccountRepository_GetByID (accountRepo s) (Req_ToAccountID req) d1 of
       (Inl err, d2) \<Rightarrow> (Inl err, d2)
     | (Inr toAccount, d2) \<Rightarrow>
     (if Currency fromAccount \<noteq> Currency toAccount
      then (Inl (NewWithMessage CodeInvalidRequest ''currency mismatch''), d2)
      else if sint (Balance fromAccount) < sint (Req_Amount req)
      then (Inl (NewWithMessage CodeInsufficientBalance ''insufficient balance''), d2)
      else
     (case Transaction
             (\<lambda>tx. execTransfer s (Req_FromAccountID req) (Req_ToAccountID req)
                      (Req_Amount req)) d2 of
       (Inl err, d3) \<Rightarrow> (Inl err, d3)
     | (Inr result, d3) \<Rightarrow> (Inr (toTransferResponse (Result_Transfer result)), d3))))))"

section \<open>The account service\<close>

definition toAccountResponse :: "Account \<Rightarrow> AccountResponse" where
  "toAccountResponse account =
    \<lparr>AResp_ID = ID account, AResp_Owner = Owner account,
     AResp_Balance = Balance account, AResp_Currency = Currency account\<rparr>"

text \<open>
  \<open>AccountService.CreateAccount\<close>, on its repository \<open>r\<close>. Any error of the lookup,
  not only "not found", lets the creation go on.
\<close>

definition CreateAccount ::
  "Repository \<Rightarrow> string \<Rightarrow> CreateAccountRequest \<Rightarrow> Database
    \<Rightarrow> (AppError + AccountResponse) \<times> Database" where
  "CreateAccount r owner req d =
    (case AccountRepository_GetByOwnerAndCurrency r owner (Acc_Currency req) d of
       (Inr existingAccount, d1) \<Rightarrow>
         (Inl (NewWithMessage CodeAlreadyExists
                ''account with this currency already exists''), d1)
     | (Inl err0, d1) \<Rightarrow>
         (case AccountRepository_Create r owner 0 (Acc_Currency req) d1 of
            (Inl err, d2) \<Rightarrow> (Inl err, d2)
          | (Inr account, d2) \<Rightarrow> (Inr (toAccountResponse account), d2)))"

section \<open>The HTTP handler of transfers\<close>

text \<open>
  \<open>TransferHandler.CreateTransfer\<close>. Its inputs are the user name of the authenticated
  payload and the outcome of \<open>ShouldBindJSON\<close>: the text of the validation error, or
  the bound request. It answers with a status and a JSON body.
\<close>

datatype body = ErrorBody ErrorResponse | TransferBody TransferResponse

definition StatusBadRequest :: int where "StatusBadRequest = 400"
definition StatusCreated :: int where "StatusCreated = 201"
definition StatusUnprocessableEntity :: int where "StatusUnprocessableEntity = 422"

definition handleError :: "AppError \<Rightarrow> int \<times> body" where
  "handleError appErr = (HTTPStatus appErr, ErrorBody (NewErrorResponse appErr))"

definition handleValidationError :: "string \<Rightarrow> int \<times> body" where
  "handleValidationError msg =
    (StatusBadRequest, ErrorBody (NewErrorResponse (ErrInvalidParams msg)))"

definition TransferHandler_CreateTransfer ::
  "TransferService \<Rightarrow> string \<Rightarrow> string + CreateTransferRequest \<Rightarrow> Database
    \<Rightarrow> (int \<times> body) \<times> Database" where
  "TransferHandler_CreateTransfer s username bound d =
    (case bound of
       Inl msg \<Rightarrow> (handleValidationError msg, d)
     | Inr req \<Rightarrow>
         (if Req_FromAccountID req = Req_ToAccountID req
          then ((StatusUnprocessableEntity,
                 ErrorBody (NewErrorResponse
                   (NewWithMessage CodeSameAccount ''cannot transfer to same account''))), d)
          else (case CreateTransfer s username req d of
                  (Inl err, d') \<Rightarrow> (handleError err, d')
                | (Inr transferResp, d') \<Rightarrow> ((StatusCreated, TransferBody transferResp), d'))))"

section \<open>The wiring of the application and the two phases of a transfer\<close>

text \<open>The repository that \<open>setupHTTPServer\<close> hands to \<open>NewAccountService\<close>.\<close>

definition accountRepository :: Repository where
  "accountRepository = NewRepository Pool"

text \<open>
  Steps 1 to 4 of \<open>CreateTransfer\<close> (the reads and the checks before the transaction)
  and steps 5 and 6 (the transaction and the response), each as a function of its own, so
  that the calls of two requests can be put in an order.
\<close>

definition CreateTransfer_checks ::
  "TransferService \<Rightarrow> string \<Rightarrow> CreateTransferRequest \<Rightarrow> Database
    \<Rightarrow> (AppError + unit) \<times> Database" where
  "CreateTransfer_checks s owner req d =
    (case AccountRepository_GetByID (accountRepo s) (Req_FromAccountID req) d of
       (Inl err, d1) \<Rightarrow> (Inl err, d1)
     | (Inr fromAccount, d1) \<Rightarrow>
     (if Owner fromAccount \<noteq> owner then (Inl ErrUnauthorized, d1)
      else
     (case AccountRepository_GetByID (accountRepo s) (Req_ToAccountID req) d1 of
       (Inl err, d2) \<Rightarrow> (Inl err, d2)
     | (Inr toAccount, d2) \<Rightarrow>
     (if Currency fromAccount \<noteq> Currency toAccount
      then (Inl (NewWithMessage CodeInvalidRequest ''currency mismatch''), d2)
      else if sint (Balance fromAccount) < sint (Req_Amount req)
      then (Inl (NewWithMessage CodeInsufficientBalance ''insufficient balance''), d2)
      else (Inr (), d2)))))"

definition CreateTransfer_transaction ::
  "TransferService \<Rightarrow> CreateTransferRequest \<Rightarrow> Database
    \<Rightarrow> (AppError + TransferResponse) \<times> Database" where
  "CreateTransfer_transaction s req d =
    (case Transaction
             (\<lambda>tx. execTransfer s (Req_FromAccountID req) (Req_ToAccountID req)
                      (Req_Amount req)) d of
       (Inl err, d3) \<Rightarrow> (Inl err, d3)
     | (Inr result, d3) \<Rightarrow> (Inr (toTransferResponse (Result_Transfer result)), d3))"

text \<open>
  Two requests served at the same time, in the order: checks of the first, checks of the
  second, transaction of the first, transaction of the second. A request whose checks
  fail does not reach its transaction.
\<close>

definition twoRequests ::
  "TransferService \<Rightarrow> string \<Rightarrow> CreateTransferRequest \<Rightarrow> string \<Rightarrow> CreateTransferRequest
    \<Rightarrow> Database
    \<Rightarrow> ((AppError + TransferResponse) \<times> (AppError + TransferResponse)) \<times> Database" where
  "twoRequests s owner1 req1 owner2 req2 d =
    (case CreateTransfer_checks s owner1 req1 d of (c1, d1) \<Rightarrow>
     case CreateTransfer_checks s owner2 req2 d1 of (c2, d2) \<Rightarrow>
     case (case c1 of Inl err \<Rightarrow> (Inl err, d2)
                    | Inr u \<Rightarrow> CreateTransfer_transaction s req1 d2) of (r1, d3) \<Rightarrow>
     case (case c2 of Inl err \<Rightarrow> (Inl err, d3)
                    | Inr u \<Rightarrow> CreateTransfer_transaction s req2 d3) of (r2, d4) \<Rightarrow>
     ((r1, r2), d4))"

section \<open>An example ledger\<close>

definition exampleTables :: Tables where
  "exampleTables =
    \<lparr>accounts = [\<lparr>ID = 1, Owner = ''alice'', Balance = 1000, Currency = ''USD''\<rparr>,
                 \<lparr>ID = 2, Owner = ''bob'', Balance = 500, Currency = ''USD''\<rparr>,
                 \<lparr>ID = 3, Owner = ''carol'', Balance = 200, Currency = ''EUR''\<rparr>],
     transfers = [], entries = []\<rparr>"

definition exampleDatabase :: "bool list \<Rightarrow> Database" where
  "exampleDatabase fs = \<lparr>tables = exampleTables, txWrites = [], faults = fs, journal = []\<rparr>"

definition exampleRequest :: "nat \<Rightarrow> nat \<Rightarrow> int64 \<Rightarrow> CreateTransferRequest" where
  "exampleRequest from to amount =
    \<lparr>Req_FromAccountID = from, Req_ToAccountID = to, Req_Amount = amount,
     Req_Currency = ''USD''\<rparr>"

text \<open>The balance of an account in the tables, as an integer.\<close>

definition balanceOf :: "Tables \<Rightarrow> nat \<Rightarrow> int option" where
  "balanceOf t i = map_option (\<lambda>a. sint (Balance a)) (find (\<lambda>a. ID a = i) (accounts t))"

text \<open>No account has a negative balance; the account identifiers are distinct.\<close>

definition nonnegative :: "Tables \<Rightarrow> bool" where
  "nonnegative t = list_all (\<lambda>a. 0 \<le> sint (Balance a)) (accounts t)"

definition primary_key :: "Tables \<Rightarrow> bool" where
  "primary_key t = distinct (map ID (accounts t))"

text \<open>Requests served one after another, each to its end before the next begins.\<close>

fun serveAll :: "(string \<times> CreateTransferRequest) list \<Rightarrow> Database \<Rightarrow> Database" where
  "serveAll [] d = d"
| "serveAll ((owner, req) # rest) d =
     serveAll rest (snd (CreateTransfer transferService owner req d))"

section \<open>Unfolding the definitions\<close>

lemmas Code_defs =
  CodeSuccess_def CodeInvalidParams_def CodeInvalidRequest_def CodeUnauthorized_def
  CodeTokenExpired_def CodeInvalidToken_def CodeForbidden_def CodeAccountBlocked_def
  CodeNotFound_def CodeUserNotFound_def CodeAccountNotFound_def CodeAlreadyExists_def
  CodeUsernameExists_def CodeEmailExists_def CodeInsufficientBalance_def
  CodeCurrencyMismatch_def CodeSameAccount_def CodePasswordWrong_def
  CodeInternalError_def CodeDatabaseError_def

lemmas error_defs =
  ErrDatabase_def Wrap_def NewWithMessage_def New_def ErrUnauthorized_def
  ErrAccountNotFound_def ErrInvalidParams_def NewErrorResponse_def GetMessage_def
  codeMessages_def codeToHTTPStatus_def go_div_def

lemmas table_defs =
  selectAccount_def selectAccountOfOwner_def insertAccount_def insertTransfer_def
  insertEntry_def updateAccountBalance_def account_exists_def credit_def credit_fits_def
  int64_range_def next_id_def effect_def

lemmas store_defs = exec_def issue_def store_def viewOf_def replay_def

lemmas repo_defs =
  AccountRepository_Create_def AccountRepository_GetByID_def
  AccountRepository_GetByOwnerAndCurrency_def AccountRepository_UpdateBalance_def
  TransferRepository_Create_def EntryRepository_Create_def

lemmas service_defs =
  CreateTransfer_def execTransfer_def addMoney_def Transaction_def CreateAccount_def
  transferService_def NewTransferService_def NewRepository_def accountRepository_def
  toTransferResponse_def toAccountResponse_def
  CreateTransfer_checks_def CreateTransfer_transaction_def twoRequests_def balanceOf_def

lemmas handler_defs =
  TransferHandler_CreateTransfer_def handleError_def handleValidationError_def
  StatusBadRequest_def StatusCreated_def StatusUnprocessableEntity_def

lemmas example_defs = exampleTables_def exampleDatabase_def exampleRequest_def

lemmas run_defs =
  service_defs repo_defs store_defs table_defs error_defs Code_defs handler_defs
  example_defs Let_def

section \<open>Signed 64-bit arithmetic\<close>

lemma sint_add_in_range:
  fixes a b :: int64
  assumes "int64_range (sint a + sint b)"
  shows "sint (a + b) = sint a + sint b"
  using assms
  by (simp add: int64_range_def sint_word_ariths signed_take_bit_int_eq_self)

lemma sint_neg_pos:
  fixes a :: int64
  assumes "0 < sint a"
  shows "sint (- a) = - sint a"
proof -
  have "sint a < 2 ^ 63" using sint_lt [of a] by simp
  with assms show ?thesis
    by (simp add: sint_word_ariths signed_take_bit_int_eq_self)
qed

section \<open>What each statement does to the tables\<close>

lemma find_credit:
  "find (\<lambda>a. ID a = i) (map (credit j delta) xs) =
     map_option (credit j delta) (find (\<lambda>a. ID a = i) xs)"
  by (induction xs) (auto simp: credit_def)

lemma credit_fits_find:
  "list_all (credit_fits j delta) xs \<Longrightarrow> find (\<lambda>a. ID a = j) xs = Some a
    \<Longrightarrow> int64_range (sint (Balance a) + sint delta)"
  by (induction xs) (auto simp: credit_fits_def split: if_splits)

lemma updateAccountBalance_Inr:
  assumes "updateAccountBalance j delta t = Inr (u, t')"
  shows "balanceOf t' i =
           (if i = j then map_option (\<lambda>b. b + sint delta) (balanceOf t i) else balanceOf t i)"
    and "transfers t' = transfers t" and "entries t' = entries t"
    and "map ID (accounts t') = map ID (accounts t)"
proof -
  from assms have fits: "list_all (credit_fits j delta) (accounts t)"
    and t': "t' = t\<lparr>accounts := map (credit j delta) (accounts t)\<rparr>"
    by (auto simp: updateAccountBalance_def split: if_splits)
  show "transfers t' = transfers t" "entries t' = entries t" using t' by simp_all
  show "map ID (accounts t') = map ID (accounts t)" using t' by (simp add: credit_def)
  show "balanceOf t' i =
           (if i = j then map_option (\<lambda>b. b + sint delta) (balanceOf t i) else balanceOf t i)"
  proof (cases "find (\<lambda>a. ID a = i) (accounts t)")
    case None
    then show ?thesis using t' by (auto simp: balanceOf_def find_credit)
  next
    case (Some a)
    then have ida: "ID a = i" by (auto simp: find_Some_iff)
    show ?thesis
    proof (cases "i = j")
      case True
      with Some fits have "int64_range (sint (Balance a) + sint delta)"
        using credit_fits_find by blast
      then have "sint (Balance a + delta) = sint (Balance a) + sint delta"
        by (rule sint_add_in_range)
      with Some True ida t' show ?thesis
        by (simp add: balanceOf_def find_credit credit_def)
    next
      case False
      with Some ida t' show ?thesis
        by (simp add: balanceOf_def find_credit credit_def)
    qed
  qed
qed

lemma insertTransfer_Inr:
  assumes "insertTransfer from to amount t = Inr (row, t')"
  shows "accounts t' = accounts t" and "entries t' = entries t"
    and "transfers t' = transfers t @ [row]"
    and "FromAccountID row = from" and "ToAccountID row = to" and "Amount row = amount"
    and "0 < sint amount"
  using assms by (auto simp: insertTransfer_def Let_def split: if_splits)

lemma insertEntry_Inr:
  assumes "insertEntry account amount t = Inr (row, t')"
  shows "accounts t' = accounts t" and "transfers t' = transfers t"
    and "entries t' = entries t @ [row]"
    and "AccountID row = account" and "Entry_Amount row = amount"
  using assms by (auto simp: insertEntry_def Let_def split: if_splits)

lemma selectAccount_Inr:
  assumes "selectAccount i t = Inr (a, t')"
  shows "t' = t" and "find (\<lambda>a. ID a = i) (accounts t) = Some a"
  using assms by (auto simp: selectAccount_def split: option.splits)

section \<open>Statements sent through the pool\<close>

text \<open>
  A statement sent through the handle of the pool is recorded, leaves the statements of
  the open transaction alone, and either fails without touching the tables or has the
  effect of the statement on the committed tables at once.
\<close>

lemma exec_Pool:
  assumes "exec Pool q run d = (r, d')"
  shows "journal d' = journal d @ [q] \<and> txWrites d' = txWrites d \<and>
         (case r of Inl e \<Rightarrow> tables d' = tables d
                  | Inr x \<Rightarrow> run (tables d) = Inr (x, tables d'))"
  using assms
  by (auto simp: store_defs split: list.splits bool.splits sum.splits prod.splits)

lemma TransferRepository_Create_Pool:
  assumes "TransferRepository_Create (NewRepository Pool) from to amount d = (r, d')"
  shows "journal d' = journal d @ [InsertTransfer from to amount] \<and> txWrites d' = txWrites d \<and>
         (case r of Inl e \<Rightarrow> tables d' = tables d \<and> Code e = CodeDatabaseError
                  | Inr row \<Rightarrow> insertTransfer from to amount (tables d) = Inr (row, tables d'))"
  using assms
  by (auto simp: TransferRepository_Create_def NewRepository_def ErrDatabase_def Wrap_def
      split: prod.splits sum.splits dest!: exec_Pool)

lemma EntryRepository_Create_Pool:
  assumes "EntryRepository_Create (NewRepository Pool) account amount d = (r, d')"
  shows "journal d' = journal d @ [InsertEntry account amount] \<and> txWrites d' = txWrites d \<and>
         (case r of Inl e \<Rightarrow> tables d' = tables d \<and> Code e = CodeDatabaseError
                  | Inr row \<Rightarrow> insertEntry account amount (tables d) = Inr (row, tables d'))"
  using assms
  by (auto simp: EntryRepository_Create_def NewRepository_def ErrDatabase_def Wrap_def
      split: prod.splits sum.splits dest!: exec_Pool)

lemma AccountRepository_GetByID_Pool:
  assumes "AccountRepository_GetByID (NewRepository Pool) i d = (r, d')"
  shows "journal d' = journal d @ [SelectAccount i] \<and> txWrites d' = txWrites d \<and>
         tables d' = tables d \<and>
         (case r of Inl e \<Rightarrow> True
                  | Inr a \<Rightarrow> find (\<lambda>a. ID a = i) (accounts (tables d)) = Some a)"
  using assms
  by (auto simp: AccountRepository_GetByID_def NewRepository_def
      split: prod.splits sum.splits if_splits dest!: exec_Pool dest: selectAccount_Inr)

lemma AccountRepository_UpdateBalance_Pool:
  assumes "AccountRepository_UpdateBalance (NewRepository Pool) i amount d = (r, d')"
  shows "txWrites d' = txWrites d \<and>
         (case r of
            Inl e \<Rightarrow> Code e = CodeDatabaseError \<and>
              (journal d' = journal d @ [UpdateAccountBalance i amount] \<and> tables d' = tables d
               \<or> journal d' = journal d @ [UpdateAccountBalance i amount, SelectAccount i]
                 \<and> updateAccountBalance i amount (tables d) = Inr ((), tables d'))
          | Inr a \<Rightarrow>
              journal d' = journal d @ [UpdateAccountBalance i amount, SelectAccount i]
              \<and> updateAccountBalance i amount (tables d) = Inr ((), tables d'))"
  using assms
  by (auto simp: AccountRepository_UpdateBalance_def NewRepository_def ErrDatabase_def Wrap_def
        selectAccount_def
      split: prod.splits sum.splits if_splits option.splits dest!: exec_Pool)

section \<open>The transfer service on the pool\<close>

lemma repositories_of_transferService [simp]:
  "accountRepo transferService = NewRepository Pool"
  "transferRepo transferService = NewRepository Pool"
  "entryRepo transferService = NewRepository Pool"
  by (simp_all add: transferService_def NewTransferService_def)

lemma addMoney_Pool:
  assumes "addMoney transferService i1 a1 i2 a2 d = (r, d')"
  shows "txWrites d' = txWrites d \<and>
         (\<exists>qs. journal d' = journal d @ qs \<and>
            prefix qs [UpdateAccountBalance i1 a1, SelectAccount i1,
                       UpdateAccountBalance i2 a2, SelectAccount i2])"
  using assms
  by (auto simp: addMoney_def split: prod.splits sum.splits
      dest!: AccountRepository_UpdateBalance_Pool)

lemma addMoney_Pool_Inr:
  assumes "addMoney transferService i1 a1 i2 a2 d = (Inr (x, y), d')"
  shows "\<exists>t1. updateAccountBalance i1 a1 (tables d) = Inr ((), t1)
            \<and> updateAccountBalance i2 a2 t1 = Inr ((), tables d')
            \<and> journal d' = journal d @ [UpdateAccountBalance i1 a1, SelectAccount i1,
                                         UpdateAccountBalance i2 a2, SelectAccount i2]
            \<and> txWrites d' = txWrites d"
  using assms
  by (auto simp: addMoney_def split: prod.splits sum.splits
      dest!: AccountRepository_UpdateBalance_Pool)

text \<open>Whatever its outcome, \<open>execTransfer\<close> sends a prefix of one fixed list of statements.\<close>

lemma execTransfer_Pool:
  assumes "execTransfer transferService from to amount d = (r, d')"
  shows "txWrites d' = txWrites d \<and>
         (\<exists>qs. journal d' = journal d @ qs \<and>
            prefix qs
             [InsertTransfer from to amount, InsertEntry from (- amount), InsertEntry to amount,
              UpdateAccountBalance (min from to) (if from < to then - amount else amount),
              SelectAccount (min from to),
              UpdateAccountBalance (max from to) (if from < to then amount else - amount),
              SelectAccount (max from to)])"
  using assms
  by (auto simp: execTransfer_def min_def max_def split: prod.splits sum.splits if_splits
      dest!: TransferRepository_Create_Pool EntryRepository_Create_Pool addMoney_Pool)

text \<open>When it succeeds, every one of them took effect on the committed tables.\<close>

lemma execTransfer_Pool_Inr:
  assumes "execTransfer transferService from to amount d = (Inr res, d')"
  shows "\<exists>t1 t2 t3 t4.
           insertTransfer from to amount (tables d) = Inr (Result_Transfer res, t1)
         \<and> insertEntry from (- amount) t1 = Inr (Result_FromEntry res, t2)
         \<and> insertEntry to amount t2 = Inr (Result_ToEntry res, t3)
         \<and> updateAccountBalance (min from to) (if from < to then - amount else amount) t3
             = Inr ((), t4)
         \<and> updateAccountBalance (max from to) (if from < to then amount else - amount) t4
             = Inr ((), tables d')
         \<and> journal d' = journal d @
             [InsertTransfer from to amount, InsertEntry from (- amount), InsertEntry to amount,
              UpdateAccountBalance (min from to) (if from < to then - amount else amount),
              SelectAccount (min from to),
              UpdateAccountBalance (max from to) (if from < to then amount else - amount),
              SelectAccount (max from to)]
         \<and> txWrites d' = txWrites d"
  using assms
  by (auto simp: execTransfer_def min_def max_def split: prod.splits sum.splits if_splits
      dest!: TransferRepository_Create_Pool EntryRepository_Create_Pool addMoney_Pool_Inr)

text \<open>
  The transaction around \<open>execTransfer\<close> has nothing to commit and nothing to roll back:
  the outcome and the tables are those of \<open>execTransfer\<close> alone.
\<close>

lemma Transaction_execTransfer:
  assumes "Transaction (\<lambda>tx. execTransfer transferService from to amount) d = (r, d')"
  shows "\<exists>d''. execTransfer transferService from to amount (d\<lparr>txWrites := []\<rparr>) = (r, d'')
           \<and> tables d' = tables d'' \<and> journal d' = journal d''"
  using assms
  by (auto simp: Transaction_def replay_def split: prod.splits sum.splits
      dest!: execTransfer_Pool)

lemma CreateTransfer_phases:
  "CreateTransfer s owner req d =
    (case CreateTransfer_checks s owner req d of
       (Inl err, d2) \<Rightarrow> (Inl err, d2)
     | (Inr u, d2) \<Rightarrow> CreateTransfer_transaction s req d2)"
  by (simp add: CreateTransfer_def CreateTransfer_checks_def CreateTransfer_transaction_def
      split: prod.splits sum.splits)

lemma CreateTransfer_Inr:
  assumes "CreateTransfer transferService owner req d = (Inr resp, d')"
  shows "\<exists>fromAccount toAccount d2 d3 res.
           find (\<lambda>a. ID a = Req_FromAccountID req) (accounts (tables d)) = Some fromAccount
         \<and> find (\<lambda>a. ID a = Req_ToAccountID req) (accounts (tables d)) = Some toAccount
         \<and> Owner fromAccount = owner \<and> Currency fromAccount = Currency toAccount
         \<and> sint (Req_Amount req) \<le> sint (Balance fromAccount)
         \<and> tables d2 = tables d
         \<and> execTransfer transferService (Req_FromAccountID req) (Req_ToAccountID req)
               (Req_Amount req) d2 = (Inr res, d3)
         \<and> tables d' = tables d3
         \<and> resp = toTransferResponse (Result_Transfer res)"
proof -
  from assms obtain fromAccount d1 where
    g1: "AccountRepository_GetByID (NewRepository Pool) (Req_FromAccountID req) d
          = (Inr fromAccount, d1)"
    by (auto simp: CreateTransfer_def split: prod.splits sum.splits if_splits)
  from assms g1 have own: "Owner fromAccount = owner"
    by (auto simp: CreateTransfer_def split: prod.splits sum.splits if_splits)
  from assms g1 own obtain toAccount d2 where
    g2: "AccountRepository_GetByID (NewRepository Pool) (Req_ToAccountID req) d1
          = (Inr toAccount, d2)"
    by (auto simp: CreateTransfer_def split: prod.splits sum.splits if_splits)
  from assms g1 own g2 have cur: "Currency fromAccount = Currency toAccount"
    and bal: "sint (Req_Amount req) \<le> sint (Balance fromAccount)"
    by (auto simp: CreateTransfer_def split: prod.splits sum.splits if_splits)
  from assms g1 own g2 cur bal obtain res where
    tx: "Transaction (\<lambda>tx. execTransfer transferService (Req_FromAccountID req)
            (Req_ToAccountID req) (Req_Amount req)) d2 = (Inr res, d')"
    and resp: "resp = toTransferResponse (Result_Transfer res)"
    by (auto simp: CreateTransfer_def split: prod.splits sum.splits if_splits)
  from AccountRepository_GetByID_Pool [OF g1]
  have t1: "tables d1 = tables d"
    and f1: "find (\<lambda>a. ID a = Req_FromAccountID req) (accounts (tables d)) = Some fromAccount"
    by simp_all
  from AccountRepository_GetByID_Pool [OF g2] t1
  have t2: "tables d2 = tables d"
    and f2: "find (\<lambda>a. ID a = Req_ToAccountID req) (accounts (tables d)) = Some toAccount"
    by simp_all
  from Transaction_execTransfer [OF tx] obtain d3 where
    ex: "execTransfer transferService (Req_FromAccountID req) (Req_ToAccountID req)
           (Req_Amount req) (d2\<lparr>txWrites := []\<rparr>) = (Inr res, d3)"
    and t3: "tables d' = tables d3"
    by blast
  have "tables (d2\<lparr>txWrites := []\<rparr>) = tables d" using t2 by simp
  with f1 f2 own cur bal ex t3 resp show ?thesis by blast
qed

text \<open>The balances after the five writes of a transfer between two different accounts.\<close>

lemma transfer_balances:
  assumes i: "insertTransfer from to amount t0 = Inr (tr, t1)"
    and e1: "insertEntry from (- amount) t1 = Inr (fe, t2)"
    and e2: "insertEntry to amount t2 = Inr (te, t3)"
    and u1: "updateAccountBalance (min from to) (if from < to then - amount else amount) t3
               = Inr ((), t4)"
    and u2: "updateAccountBalance (max from to) (if from < to then amount else - amount) t4
               = Inr ((), t5)"
    and ne: "from \<noteq> to"
  shows "balanceOf t5 from = map_option (\<lambda>b. b - sint amount) (balanceOf t0 from)"
    and "balanceOf t5 to = map_option (\<lambda>b. b + sint amount) (balanceOf t0 to)"
    and "\<And>k. k \<noteq> from \<Longrightarrow> k \<noteq> to \<Longrightarrow> balanceOf t5 k = balanceOf t0 k"
proof -
  have pos: "0 < sint amount" using insertTransfer_Inr(7) [OF i] .
  have neg: "sint (- amount) = - sint amount" using pos by (rule sint_neg_pos)
  have b3: "balanceOf t3 = balanceOf t0"
    using insertTransfer_Inr(1) [OF i] insertEntry_Inr(1) [OF e1] insertEntry_Inr(1) [OF e2]
    by (simp add: balanceOf_def fun_eq_iff)
  note s1 = updateAccountBalance_Inr(1) [OF u1]
  note s2 = updateAccountBalance_Inr(1) [OF u2]
  show "balanceOf t5 from = map_option (\<lambda>b. b - sint amount) (balanceOf t0 from)"
    using ne by (cases "balanceOf t0 from") (auto simp: s1 s2 b3 neg min_def max_def)
  show "balanceOf t5 to = map_option (\<lambda>b. b + sint amount) (balanceOf t0 to)"
    using ne by (cases "balanceOf t0 to") (auto simp: s1 s2 b3 neg min_def max_def)
  show "\<And>k. k \<noteq> from \<Longrightarrow> k \<noteq> to \<Longrightarrow> balanceOf t5 k = balanceOf t0 k"
    by (auto simp: s1 s2 b3 min_def max_def)
qed

text \<open>
  What the checks before the transaction return when the driver does not fail and both
  accounts exist, the source being the caller's: nothing is written, and the error is
  built from \<open>CodeInvalidRequest\<close> when the currencies differ and from
  \<open>CodeInsufficientBalance\<close> when the balance read is below the amount.
\<close>

lemma GetByID_found:
  assumes "faults d = []"
    and "find (\<lambda>a. ID a = i) (accounts (tables d)) = Some a"
  shows "AccountRepository_GetByID (NewRepository Pool) i d =
           (Inr a, d\<lparr>journal := journal d @ [SelectAccount i]\<rparr>)"
  using assms
  by (simp add: AccountRepository_GetByID_def NewRepository_def store_defs selectAccount_def)

lemma CreateTransfer_rejects:
  assumes nofault: "faults d = []"
    and f: "find (\<lambda>a. ID a = Req_FromAccountID req) (accounts (tables d)) = Some fromAccount"
    and t: "find (\<lambda>a. ID a = Req_ToAccountID req) (accounts (tables d)) = Some toAccount"
    and own: "Owner fromAccount = owner"
  shows "Currency fromAccount \<noteq> Currency toAccount \<Longrightarrow>
           CreateTransfer transferService owner req d =
             (Inl (NewWithMessage CodeInvalidRequest ''currency mismatch''),
              d\<lparr>journal := journal d @ [SelectAccount (Req_FromAccountID req),
                                          SelectAccount (Req_ToAccountID req)]\<rparr>)"
    and "Currency fromAccount = Currency toAccount \<Longrightarrow>
         sint (Balance fromAccount) < sint (Req_Amount req) \<Longrightarrow>
           CreateTransfer transferService owner req d =
             (Inl (NewWithMessage CodeInsufficientBalance ''insufficient balance''),
              d\<lparr>journal := journal d @ [SelectAccount (Req_FromAccountID req),
                                          SelectAccount (Req_ToAccountID req)]\<rparr>)"
  using assms
  by (simp_all add: CreateTransfer_def GetByID_found)

text \<open>Every error that \<open>execTransfer\<close> returns is a database error.\<close>

lemma addMoney_error_code:
  assumes "addMoney transferService i1 a1 i2 a2 d = (Inl err, d')"
  shows "Code err = CodeDatabaseError"
  using assms
  by (auto simp: addMoney_def split: prod.splits sum.splits
      dest!: AccountRepository_UpdateBalance_Pool)

lemma execTransfer_error_code:
  assumes "execTransfer transferService from to amount d = (Inl err, d')"
  shows "Code err = CodeDatabaseError"
  using assms
  by (auto simp: execTransfer_def split: prod.splits sum.splits if_splits
      dest!: TransferRepository_Create_Pool EntryRepository_Create_Pool addMoney_error_code)

section \<open>The error taxonomy and its HTTP statuses\<close>

lemma codeToHTTPStatus_taxonomy:
  "codeToHTTPStatus CodeAccountNotFound = 404"
  "codeToHTTPStatus CodeInsufficientBalance = 422"
  "codeToHTTPStatus CodeCurrencyMismatch = 422"
  "codeToHTTPStatus CodeSameAccount = 422"
  by (simp_all add: codeToHTTPStatus_def go_div_def Code_defs)

text \<open>
  Claim C7: a transfer between two existing accounts of different currencies is rejected
  before the transaction with the error value \<open>CodeCurrencyMismatch\<close> (42202), which the
  HTTP layer answers with status 422.

  The statuses of the four codes are as claimed (\<open>codeToHTTPStatus_taxonomy\<close>), and the
  request is rejected before the transaction, but with another code
  (\<open>CreateTransfer_rejects\<close>). In the example
  ledger account 1 (alice) holds USD and account 3 (carol) holds EUR: the service
  returns code 40002 (\<open>CodeInvalidRequest\<close>) with the message "currency mismatch", and
  the handler answers with status 400. \<open>CodeCurrencyMismatch\<close> is 42202, and no path of
  \<open>CreateTransfer\<close> builds an error from it.
\<close>

theorem CreateTransfer_currency_mismatch_is_invalid_request:
  "CreateTransfer transferService ''alice'' (exampleRequest 1 3 300) (exampleDatabase [])
     = (Inl \<lparr>Code = 40002, Message = ''currency mismatch'', HTTPStatus = 400\<rparr>,
        \<lparr>tables = exampleTables, txWrites = [], faults = [],
         journal = [SelectAccount 1, SelectAccount 3]\<rparr>)
   \<and> fst (TransferHandler_CreateTransfer transferService ''alice''
            (Inr (exampleRequest 1 3 300)) (exampleDatabase []))
     = (400, ErrorBody \<lparr>Err_Code = 40002, Err_Message = ''currency mismatch''\<rparr>)
   \<and> CodeCurrencyMismatch = 42202"
  by (simp add: run_defs)

section \<open>The currency of the request\<close>

text \<open>
  Claim C10: the \<open>Currency\<close> field of the request is never compared with the currency
  of either account: two requests that differ only in that field have the same outcome,
  in the result and in the database.
\<close>

theorem CreateTransfer_ignores_request_currency:
  "CreateTransfer s owner (req\<lparr>Req_Currency := c1\<rparr>) d =
   CreateTransfer s owner (req\<lparr>Req_Currency := c2\<rparr>) d"
  by (simp add: CreateTransfer_def split: prod.splits sum.splits)

section \<open>Transfers of an account to itself\<close>

text \<open>
  Claim C6, as stated: \<open>TransferService.CreateTransfer\<close> called with equal source and
  destination returns an error of code \<open>CodeSameAccount\<close> and writes nothing.

  The service has no such check. In the example ledger a transfer of 300 from account 1
  to account 1 by its owner succeeds: it inserts the transfer row and both entries and
  sends both balance updates, which cancel.
\<close>

theorem CreateTransfer_same_account_accepted:
  "CreateTransfer transferService ''alice'' (exampleRequest 1 1 300) (exampleDatabase []) =
     (Inr \<lparr>Resp_ID = 1, Resp_FromAccountID = 1, Resp_ToAccountID = 1, Resp_Amount = 300\<rparr>,
      \<lparr>tables = exampleTables
          \<lparr>transfers := [\<lparr>Transfer_ID = 1, FromAccountID = 1, ToAccountID = 1,
                           Amount = 300\<rparr>],
           entries := [\<lparr>Entry_ID = 1, AccountID = 1, Entry_Amount = - 300\<rparr>,
                       \<lparr>Entry_ID = 2, AccountID = 1, Entry_Amount = 300\<rparr>]\<rparr>,
       txWrites = [], faults = [],
       journal = [SelectAccount 1, SelectAccount 1, InsertTransfer 1 1 300,
                  InsertEntry 1 (- 300), InsertEntry 1 300,
                  UpdateAccountBalance 1 300, SelectAccount 1,
                  UpdateAccountBalance 1 (- 300), SelectAccount 1]\<rparr>)"
  by (simp add: run_defs)

text \<open>
  Claim C6, amended: the check is the handler's. \<open>TransferHandler.CreateTransfer\<close>
  answers a bound request with equal source and destination with status 422 and the
  error code \<open>CodeSameAccount\<close>, without calling the service: the database, its journal
  included, is unchanged.
\<close>

theorem TransferHandler_CreateTransfer_same_account:
  assumes "Req_FromAccountID req = Req_ToAccountID req"
  shows "TransferHandler_CreateTransfer s username (Inr req) d =
           ((422, ErrorBody \<lparr>Err_Code = CodeSameAccount,
                              Err_Message = ''cannot transfer to same account''\<rparr>), d)"
  using assms by (simp add: handler_defs error_defs)

theorem TransferHandler_CreateTransfer_same_account_witness:
  "Req_FromAccountID (exampleRequest 1 1 300) = Req_ToAccountID (exampleRequest 1 1 300) \<and>
   TransferHandler_CreateTransfer transferService ''alice'' (Inr (exampleRequest 1 1 300))
       (exampleDatabase []) =
     ((422, ErrorBody \<lparr>Err_Code = 42203, Err_Message = ''cannot transfer to same account''\<rparr>),
      exampleDatabase [])"
  using TransferHandler_CreateTransfer_same_account
          [of "exampleRequest 1 1 300" transferService "''alice''" "exampleDatabase []"]
  by (simp add: exampleRequest_def CodeSameAccount_def)

section \<open>New accounts\<close>

text \<open>
  Claim C9: an account created through \<open>AccountService.CreateAccount\<close> starts with
  balance 0, is owned by the caller and has the currency of the request. The request
  carries nothing but the currency, so no request creates an account with another
  balance: the row appended to \<open>accounts\<close> and the response both have balance 0.
\<close>

theorem CreateAccount_starts_at_zero:
  assumes "CreateAccount accountRepository owner req d = (Inr resp, d')"
  shows "AResp_Balance resp = 0 \<and> AResp_Owner resp = owner
       \<and> AResp_Currency resp = Acc_Currency req
       \<and> accounts (tables d') = accounts (tables d) @
            [\<lparr>ID = AResp_ID resp, Owner = owner, Balance = 0, Currency = Acc_Currency req\<rparr>]"
  using assms
  by (auto simp: CreateAccount_def accountRepository_def NewRepository_def
        AccountRepository_Create_def AccountRepository_GetByOwnerAndCurrency_def store_defs
        insertAccount_def toAccountResponse_def Let_def
      split: prod.splits sum.splits if_splits list.splits bool.splits)

theorem CreateAccount_starts_at_zero_witness:
  "CreateAccount accountRepository ''dave'' \<lparr>Acc_Currency = ''CNY''\<rparr> (exampleDatabase []) =
     (Inr \<lparr>AResp_ID = 4, AResp_Owner = ''dave'', AResp_Balance = 0, AResp_Currency = ''CNY''\<rparr>,
      \<lparr>tables = exampleTables
          \<lparr>accounts := accounts exampleTables @
             [\<lparr>ID = 4, Owner = ''dave'', Balance = 0, Currency = ''CNY''\<rparr>]\<rparr>,
       txWrites = [], faults = [],
       journal = [SelectAccountOfOwner ''dave'' ''CNY'', InsertAccount ''dave'' 0 ''CNY'']\<rparr>)
   \<and> AResp_Balance \<lparr>AResp_ID = 4, AResp_Owner = ''dave'', AResp_Balance = 0,
                     AResp_Currency = ''CNY''\<rparr> = 0"
proof -
  have run: "CreateAccount accountRepository ''dave'' \<lparr>Acc_Currency = ''CNY''\<rparr>
               (exampleDatabase []) =
     (Inr \<lparr>AResp_ID = 4, AResp_Owner = ''dave'', AResp_Balance = 0, AResp_Currency = ''CNY''\<rparr>,
      \<lparr>tables = exampleTables
          \<lparr>accounts := accounts exampleTables @
             [\<lparr>ID = 4, Owner = ''dave'', Balance = 0, Currency = ''CNY''\<rparr>]\<rparr>,
       txWrites = [], faults = [],
       journal = [SelectAccountOfOwner ''dave'' ''CNY'', InsertAccount ''dave'' 0 ''CNY'']\<rparr>)"
    by (simp add: run_defs)
  from CreateAccount_starts_at_zero [OF run] run show ?thesis by simp
qed

section \<open>The order of the balance updates\<close>

text \<open>
  What a statement sent through the pool does, now with the part of the driver made
  explicit; then the same for the repositories, when the statement is one the tables
  accept.
\<close>

lemma driver_fails_drop [simp]: "driver_fails (drop n fs) i = driver_fails fs (n + i)"
  by (cases "n \<le> length fs") (auto simp: driver_fails_def)

lemma received_simps [simp]:
  "faults (received q d) = drop 1 (faults d)"
  "journal (received q d) = journal d @ [q]"
  "tables (received q d) = tables d"
  "txWrites (received q d) = txWrites d"
  by (simp_all add: received_def)

lemma issue_received: "issue q d = (driver_fails (faults d) 0, received q d)"
  by (cases "faults d") (auto simp: issue_def received_def driver_fails_def drop_Suc)

lemma exec_Pool_exact:
  "exec Pool q run d =
    (if driver_fails (faults d) 0
     then (Inl (DriverError ''driver: bad connection''), received q d)
     else case run (tables d) of
            Inl e \<Rightarrow> (Inl e, received q d)
          | Inr (x, t') \<Rightarrow> (Inr x, (received q d)\<lparr>tables := t'\<rparr>))"
  by (auto simp: exec_def issue_received store_def viewOf_def split: sum.splits)

lemma TransferRepository_Create_exact:
  assumes "insertTransfer from to amount (tables d) = Inr (row, t')"
  shows "TransferRepository_Create (NewRepository Pool) from to amount d =
    (if driver_fails (faults d) 0
     then (Inl (ErrDatabase (DriverError ''driver: bad connection'')), received (InsertTransfer from to amount) d)
     else (Inr row, (received (InsertTransfer from to amount) d)\<lparr>tables := t'\<rparr>))"
  using assms
  by (simp add: TransferRepository_Create_def NewRepository_def exec_Pool_exact)

lemma EntryRepository_Create_exact:
  assumes "insertEntry account amount (tables d) = Inr (row, t')"
  shows "EntryRepository_Create (NewRepository Pool) account amount d =
    (if driver_fails (faults d) 0
     then (Inl (ErrDatabase (DriverError ''driver: bad connection'')), received (InsertEntry account amount) d)
     else (Inr row, (received (InsertEntry account amount) d)\<lparr>tables := t'\<rparr>))"
  using assms
  by (simp add: EntryRepository_Create_def NewRepository_def exec_Pool_exact)

lemma AccountRepository_UpdateBalance_exact:
  assumes "updateAccountBalance i amount (tables d) = Inr ((), t')"
    and "selectAccount i t' = Inr (a, t')"
  shows "AccountRepository_UpdateBalance (NewRepository Pool) i amount d =
    (if driver_fails (faults d) 0
     then (Inl (ErrDatabase (DriverError ''driver: bad connection'')), received (UpdateAccountBalance i amount) d)
     else if driver_fails (faults d) 1
     then (Inl (ErrDatabase (DriverError ''driver: bad connection'')),
           received (SelectAccount i)
             ((received (UpdateAccountBalance i amount) d)\<lparr>tables := t'\<rparr>))
     else (Inr a,
           (received (SelectAccount i)
             ((received (UpdateAccountBalance i amount) d)\<lparr>tables := t'\<rparr>))\<lparr>tables := t'\<rparr>))"
  using assms
  by (simp add: AccountRepository_UpdateBalance_def NewRepository_def exec_Pool_exact)


lemma addMoney_outcome:
  assumes u1: "updateAccountBalance i1 a1 (tables d) = Inr ((), t1)"
    and x1: "selectAccount i1 t1 = Inr (b1, t1)"
    and u2: "updateAccountBalance i2 a2 t1 = Inr ((), t2)"
    and x2: "selectAccount i2 t2 = Inr (b2, t2)"
    and run: "addMoney transferService i1 a1 i2 a2 d = (r, d')"
  shows "((\<forall>i<4. \<not> driver_fails (faults d) i) \<longrightarrow>
            \<not> isl r \<and> journal d' = journal d @
              [UpdateAccountBalance i1 a1, SelectAccount i1,
               UpdateAccountBalance i2 a2, SelectAccount i2])
       \<and> (\<forall>k<4. driver_fails (faults d) k \<and> (\<forall>i<k. \<not> driver_fails (faults d) i) \<longrightarrow>
            isl r \<and> journal d' = journal d @ take (Suc k)
              [UpdateAccountBalance i1 a1, SelectAccount i1,
               UpdateAccountBalance i2 a2, SelectAccount i2])"
proof -
  let ?s = "(received (SelectAccount i1)
             ((received (UpdateAccountBalance i1 a1) d)\<lparr>tables := t1\<rparr>))\<lparr>tables := t1\<rparr>"
  note c1 = AccountRepository_UpdateBalance_exact [OF u1 x1]
  have "updateAccountBalance i2 a2 (tables ?s) = Inr ((), t2)" using u2 by simp
  note c2 = AccountRepository_UpdateBalance_exact [OF this x2]
  show ?thesis
    using run
    by (auto simp: addMoney_def c1 c2 numeral_eq_Suc All_less_Suc split: if_splits)
qed


lemma find_exists:
  "list_ex (\<lambda>a. ID a = i) xs \<Longrightarrow> \<exists>a. find (\<lambda>a. ID a = i) xs = Some a"
  by (induction xs) auto

lemma credit_fits_other:
  "i \<noteq> j \<Longrightarrow> list_all (credit_fits j delta') (map (credit i delta) xs)
             = list_all (credit_fits j delta') xs"
  by (induction xs) (auto simp: credit_fits_def credit_def)

lemma updateAccountBalance_ok:
  assumes "list_all (credit_fits i delta) (accounts t)" and "account_exists i t"
  shows "\<exists>t' b. updateAccountBalance i delta t = Inr ((), t') \<and> selectAccount i t' = Inr (b, t')
           \<and> accounts t' = map (credit i delta) (accounts t)"
proof -
  from assms(2) obtain a where "find (\<lambda>a. ID a = i) (accounts t) = Some a"
    using find_exists by (auto simp: account_exists_def)
  with assms(1) show ?thesis
    by (simp add: updateAccountBalance_def selectAccount_def find_credit)
qed

lemma list_ex_credit:
  "list_ex (\<lambda>a. ID a = i) (map (credit j delta) xs) = list_ex (\<lambda>a. ID a = i) xs"
  by (induction xs) (auto simp: credit_def)

lemma account_exists_credit:
  "accounts t' = map (credit j delta) (accounts t) \<Longrightarrow> account_exists i t' = account_exists i t"
  by (simp add: account_exists_def list_ex_credit)

lemma account_exists_accounts:
  "accounts t' = accounts t \<Longrightarrow> account_exists i t' = account_exists i t"
  by (simp add: account_exists_def)

lemma execTransfer_outcome:
  assumes shape: "from < to \<and> i1 = from \<and> a1 = - amount \<and> i2 = to \<and> a2 = amount
                \<or> \<not> from < to \<and> i1 = to \<and> a1 = amount \<and> i2 = from \<and> a2 = - amount"
    and ne: "from \<noteq> to"
    and xf: "account_exists from (tables d)" and xt: "account_exists to (tables d)"
    and pos: "0 < sint amount"
    and ff: "list_all (credit_fits from (- amount)) (accounts (tables d))"
    and ft: "list_all (credit_fits to amount) (accounts (tables d))"
    and run: "execTransfer transferService from to amount d = (r, d')"
  shows "((\<forall>i<7. \<not> driver_fails (faults d) i) \<longrightarrow>
            \<not> isl r \<and> journal d' = journal d @
              [InsertTransfer from to amount, InsertEntry from (- amount), InsertEntry to amount,
               UpdateAccountBalance i1 a1, SelectAccount i1,
               UpdateAccountBalance i2 a2, SelectAccount i2])
       \<and> (\<forall>k<7. driver_fails (faults d) k \<and> (\<forall>i<k. \<not> driver_fails (faults d) i) \<longrightarrow>
            isl r \<and> journal d' = journal d @ take (Suc k)
              [InsertTransfer from to amount, InsertEntry from (- amount), InsertEntry to amount,
               UpdateAccountBalance i1 a1, SelectAccount i1,
               UpdateAccountBalance i2 a2, SelectAccount i2])"
proof -
  from xf xt pos obtain tr t1 where
    i0: "insertTransfer from to amount (tables d) = Inr (tr, t1)"
    by (simp add: insertTransfer_def Let_def)
  have acc1: "accounts t1 = accounts (tables d)" using insertTransfer_Inr(1) [OF i0] .
  let ?s1 = "(received (InsertTransfer from to amount) d)\<lparr>tables := t1\<rparr>"
  from xf acc1 obtain fe t2 where
    i1: "insertEntry from (- amount) t1 = Inr (fe, t2)"
    by (simp add: insertEntry_def Let_def account_exists_def)
  have acc2: "accounts t2 = accounts (tables d)" using insertEntry_Inr(1) [OF i1] acc1 by simp
  let ?s2 = "(received (InsertEntry from (- amount)) ?s1)\<lparr>tables := t2\<rparr>"
  from xt acc2 obtain te t3 where
    i2: "insertEntry to amount t2 = Inr (te, t3)"
    by (simp add: insertEntry_def Let_def account_exists_def)
  have acc3: "accounts t3 = accounts (tables d)" using insertEntry_Inr(1) [OF i2] acc2 by simp
  let ?s3 = "(received (InsertEntry to amount) ?s2)\<lparr>tables := t3\<rparr>"
  have f1: "list_all (credit_fits i1 a1) (accounts t3)" and x1: "account_exists i1 t3"
    and f2: "list_all (credit_fits i2 a2) (accounts t3)" and x2: "account_exists i2 t3"
    and ne12: "i1 \<noteq> i2"
    using shape ff ft xf xt acc3 ne by (auto simp: account_exists_def)
  from updateAccountBalance_ok [OF f1 x1] obtain t4 b1 where
    u1: "updateAccountBalance i1 a1 t3 = Inr ((), t4)" and s1: "selectAccount i1 t4 = Inr (b1, t4)"
    and acc4: "accounts t4 = map (credit i1 a1) (accounts t3)"
    by blast
  have f2': "list_all (credit_fits i2 a2) (accounts t4)"
    using f2 ne12 acc4 by (simp add: credit_fits_other)
  have x2': "account_exists i2 t4" using x2 account_exists_credit [OF acc4] by simp
  from updateAccountBalance_ok [OF f2' x2'] obtain t5 b2 where
    u2: "updateAccountBalance i2 a2 t4 = Inr ((), t5)" and s2: "selectAccount i2 t5 = Inr (b2, t5)"
    by blast
  note c0 = TransferRepository_Create_exact [OF i0]
  have "insertEntry from (- amount) (tables ?s1) = Inr (fe, t2)" using i1 by simp
  note c1 = EntryRepository_Create_exact [OF this]
  have "insertEntry to amount (tables ?s2) = Inr (te, t3)" using i2 by simp
  note c2 = EntryRepository_Create_exact [OF this]
  obtain ra da where am: "addMoney transferService i1 a1 i2 a2 ?s3 = (ra, da)"
    by fastforce
  have "updateAccountBalance i1 a1 (tables ?s3) = Inr ((), t4)" using u1 by simp
  note out = addMoney_outcome [OF this s1 u2 s2 am]
  have am_lt: "from < to \<Longrightarrow>
                 addMoney transferService from (- amount) to amount ?s3 = (ra, da)"
    and am_ge: "\<not> from < to \<Longrightarrow>
                 addMoney transferService to amount from (- amount) ?s3 = (ra, da)"
    using am shape by auto
  have tail: "\<not> driver_fails (faults d) 0 \<Longrightarrow> \<not> driver_fails (faults d) 1 \<Longrightarrow>
              \<not> driver_fails (faults d) 2 \<Longrightarrow> isl r = isl ra \<and> d' = da"
    using run
    by (cases "from < to")
       (auto simp: execTransfer_def c0 c1 c2 am_lt am_ge numeral_2_eq_2
          split: prod.splits sum.splits)
  have head: "driver_fails (faults d) 0 \<Longrightarrow>
                isl r \<and> journal d' = journal d @ [InsertTransfer from to amount]"
       "\<not> driver_fails (faults d) 0 \<Longrightarrow> driver_fails (faults d) 1 \<Longrightarrow>
                isl r \<and> journal d' = journal d @
                  [InsertTransfer from to amount, InsertEntry from (- amount)]"
       "\<not> driver_fails (faults d) 0 \<Longrightarrow> \<not> driver_fails (faults d) 1 \<Longrightarrow>
        driver_fails (faults d) 2 \<Longrightarrow>
                isl r \<and> journal d' = journal d @
                  [InsertTransfer from to amount, InsertEntry from (- amount),
                   InsertEntry to amount]"
    using run by (auto simp: execTransfer_def c0 c1 c2 numeral_2_eq_2)
  show ?thesis
    using out tail head
    by (auto simp: numeral_eq_Suc All_less_Suc)
qed

lemma example_accounts_fit:
  "account_exists 1 (tables (exampleDatabase fs))"
  "account_exists 2 (tables (exampleDatabase fs))"
  "list_all (credit_fits 1 (- 300)) (accounts (tables (exampleDatabase fs)))"
  "list_all (credit_fits 1 300) (accounts (tables (exampleDatabase fs)))"
  "list_all (credit_fits 2 (- 300)) (accounts (tables (exampleDatabase fs)))"
  "list_all (credit_fits 2 300) (accounts (tables (exampleDatabase fs)))"
  by (simp_all add: example_defs account_exists_def credit_fits_def int64_range_def)

text \<open>
  Claim C3: for a transfer between two different accounts the two balance updates are
  sent in ascending order of the account identifiers, whichever of the two is the source:
  the account with the lower identifier first, the one with the higher identifier second;
  the update of the source carries \<open>- amount\<close> and the update of the destination
  \<open>amount\<close>.

  Stated on the journal of the statements the database receives. Whatever the outcome,
  the statements \<open>execTransfer\<close> sends are a prefix of the list below, and when it
  succeeds they are the whole list. When both accounts exist, the amount is positive and
  both new balances are in the range of \<open>BIGINT\<close>, the outcome is decided by the driver
  alone: if it fails on none of the seven statements, \<open>execTransfer\<close> succeeds and has
  sent the whole list; if it fails first on statement \<open>k\<close>, \<open>execTransfer\<close> returns an
  error and has sent the statements up to and including that one.
\<close>

theorem execTransfer_updates_in_id_order:
  fixes "from" to :: nat and amount :: int64
  defines "stmts \<equiv>
             [InsertTransfer from to amount, InsertEntry from (- amount), InsertEntry to amount,
              UpdateAccountBalance (min from to)
                (if min from to = from then - amount else amount),
              SelectAccount (min from to),
              UpdateAccountBalance (max from to)
                (if max from to = from then - amount else amount),
              SelectAccount (max from to)]"
  assumes ne: "from \<noteq> to"
    and run: "execTransfer transferService from to amount d = (r, d')"
  shows "\<exists>qs. journal d' = journal d @ qs
         \<and> prefix qs stmts
         \<and> (case r of Inl err \<Rightarrow> True | Inr res \<Rightarrow> length qs = 7)
         \<and> (account_exists from (tables d) \<and> account_exists to (tables d)
            \<and> 0 < sint amount
            \<and> list_all (credit_fits from (- amount)) (accounts (tables d))
            \<and> list_all (credit_fits to amount) (accounts (tables d))
            \<longrightarrow> ((\<forall>i<7. \<not> driver_fails (faults d) i) \<longrightarrow> \<not> isl r \<and> qs = stmts)
              \<and> (\<forall>k<7. driver_fails (faults d) k \<and> (\<forall>i<k. \<not> driver_fails (faults d) i)
                     \<longrightarrow> isl r \<and> qs = take (Suc k) stmts))"
proof -
  have lo: "(if min from to = from then - amount else amount)
              = (if from < to then - amount else amount)"
    using ne by (simp add: min_def)
  have hi: "(if max from to = from then - amount else amount)
              = (if from < to then amount else - amount)"
    using ne by (auto simp: max_def)
  have old: "\<exists>qs. journal d' = journal d @ qs \<and> prefix qs stmts
         \<and> (case r of Inl err \<Rightarrow> True | Inr res \<Rightarrow> length qs = 7)"
  proof (cases r)
    case (Inl err)
    with execTransfer_Pool [OF run] show ?thesis
      unfolding stmts_def lo hi by auto
  next
    case (Inr res)
    with execTransfer_Pool_Inr [of "from" to amount d res d'] run show ?thesis
      unfolding stmts_def lo hi by auto
  qed
  then obtain qs where j: "journal d' = journal d @ qs" and p: "prefix qs stmts"
    and l: "case r of Inl err \<Rightarrow> True | Inr res \<Rightarrow> length qs = 7"
    by blast
  have new: "(\<forall>i<7. \<not> driver_fails (faults d) i) \<longrightarrow> \<not> isl r \<and> qs = stmts"
       "\<forall>k<7. driver_fails (faults d) k \<and> (\<forall>i<k. \<not> driver_fails (faults d) i)
                     \<longrightarrow> isl r \<and> qs = take (Suc k) stmts"
    if ok: "account_exists from (tables d)" "account_exists to (tables d)" "0 < sint amount"
      "list_all (credit_fits from (- amount)) (accounts (tables d))"
      "list_all (credit_fits to amount) (accounts (tables d))"
  proof -
    have shape: "from < to \<and> min from to = from
                   \<and> (if from < to then - amount else amount) = - amount
                   \<and> max from to = to \<and> (if from < to then amount else - amount) = amount
              \<or> \<not> from < to \<and> min from to = to
                   \<and> (if from < to then - amount else amount) = amount
                   \<and> max from to = from \<and> (if from < to then amount else - amount) = - amount"
      using ne by auto
    note out = execTransfer_outcome [OF shape ne ok run]
    show "(\<forall>i<7. \<not> driver_fails (faults d) i) \<longrightarrow> \<not> isl r \<and> qs = stmts"
      using out j unfolding stmts_def lo hi by simp
    show "\<forall>k<7. driver_fails (faults d) k \<and> (\<forall>i<k. \<not> driver_fails (faults d) i)
                     \<longrightarrow> isl r \<and> qs = take (Suc k) stmts"
      using out j unfolding stmts_def lo hi by simp
  qed
  from j p l new show ?thesis by blast
qed

theorem execTransfer_updates_in_id_order_witness:
  "(1::nat) \<noteq> 2
   \<and> \<not> isl (fst (execTransfer transferService 1 2 300 (exampleDatabase [])))
   \<and> journal (snd (execTransfer transferService 1 2 300 (exampleDatabase []))) =
       [InsertTransfer 1 2 300, InsertEntry 1 (- 300), InsertEntry 2 300,
        UpdateAccountBalance 1 (- 300), SelectAccount 1,
        UpdateAccountBalance 2 300, SelectAccount 2]
   \<and> (2::nat) \<noteq> 1
   \<and> \<not> isl (fst (execTransfer transferService 2 1 300 (exampleDatabase [])))
   \<and> journal (snd (execTransfer transferService 2 1 300 (exampleDatabase []))) =
       [InsertTransfer 2 1 300, InsertEntry 2 (- 300), InsertEntry 1 300,
        UpdateAccountBalance 1 300, SelectAccount 1,
        UpdateAccountBalance 2 (- 300), SelectAccount 2]
   \<and> isl (fst (execTransfer transferService 2 1 300
               (exampleDatabase [False, False, False, False, False, True])))
   \<and> journal (snd (execTransfer transferService 2 1 300
               (exampleDatabase [False, False, False, False, False, True]))) =
       [InsertTransfer 2 1 300, InsertEntry 2 (- 300), InsertEntry 1 300,
        UpdateAccountBalance 1 300, SelectAccount 1,
        UpdateAccountBalance 2 (- 300)]"
proof -
  let ?X = "execTransfer transferService 1 2 300 (exampleDatabase [])"
  let ?Y = "execTransfer transferService 2 1 300 (exampleDatabase [])"
  let ?Z = "execTransfer transferService 2 1 300
              (exampleDatabase [False, False, False, False, False, True])"
  have pos: "0 < sint (300 :: int64)" by simp
  have none: "\<forall>i<7. \<not> driver_fails (faults (exampleDatabase [])) i"
    by (simp add: driver_fails_def exampleDatabase_def)
  have x: "\<not> isl (fst ?X) \<and> journal (snd ?X) =
       [InsertTransfer 1 2 300, InsertEntry 1 (- 300), InsertEntry 2 300,
        UpdateAccountBalance 1 (- 300), SelectAccount 1,
        UpdateAccountBalance 2 300, SelectAccount 2]"
    using execTransfer_updates_in_id_order [of 1 2 300 "exampleDatabase []" "fst ?X" "snd ?X"]
      example_accounts_fit [of "[]"] pos none
    by (auto simp: exampleDatabase_def)
  have y: "\<not> isl (fst ?Y) \<and> journal (snd ?Y) =
       [InsertTransfer 2 1 300, InsertEntry 2 (- 300), InsertEntry 1 300,
        UpdateAccountBalance 1 300, SelectAccount 1,
        UpdateAccountBalance 2 (- 300), SelectAccount 2]"
    using execTransfer_updates_in_id_order [of 2 1 300 "exampleDatabase []" "fst ?Y" "snd ?Y"]
      example_accounts_fit [of "[]"] pos none
    by (auto simp: exampleDatabase_def)
  have z: "isl (fst ?Z) \<and> journal (snd ?Z) =
       [InsertTransfer 2 1 300, InsertEntry 2 (- 300), InsertEntry 1 300,
        UpdateAccountBalance 1 300, SelectAccount 1,
        UpdateAccountBalance 2 (- 300)]"
    using execTransfer_updates_in_id_order
            [of 2 1 300 "exampleDatabase [False, False, False, False, False, True]"
               "fst ?Z" "snd ?Z"]
      example_accounts_fit [of "[False, False, False, False, False, True]"] pos
    by (auto simp: exampleDatabase_def driver_fails_def numeral_eq_Suc All_less_Suc)
  from x y z show ?thesis by simp
qed

section \<open>Conservation of the balances\<close>

text \<open>
  Claim C8: after a successful transfer between two different accounts the balance of
  the source is lower by exactly the amount and the balance of the destination higher by
  exactly the amount, so the sum of the two balances is what it was before. The balances
  are read as integers; a sum that leaves the range of \<open>BIGINT\<close> makes the update, and
  with it the transfer, fail.
\<close>

theorem CreateTransfer_conserves_balances:
  assumes ok: "CreateTransfer transferService owner req d = (Inr resp, d')"
    and ne: "Req_FromAccountID req \<noteq> Req_ToAccountID req"
  shows "\<exists>bf bt.
           balanceOf (tables d) (Req_FromAccountID req) = Some bf
         \<and> balanceOf (tables d) (Req_ToAccountID req) = Some bt
         \<and> balanceOf (tables d') (Req_FromAccountID req) = Some (bf - sint (Req_Amount req))
         \<and> balanceOf (tables d') (Req_ToAccountID req) = Some (bt + sint (Req_Amount req))
         \<and> (bf - sint (Req_Amount req)) + (bt + sint (Req_Amount req)) = bf + bt"
proof -
  from CreateTransfer_Inr [OF ok] obtain fromAccount toAccount d2 d3 res where
    f1: "find (\<lambda>a. ID a = Req_FromAccountID req) (accounts (tables d)) = Some fromAccount"
    and f2: "find (\<lambda>a. ID a = Req_ToAccountID req) (accounts (tables d)) = Some toAccount"
    and t2: "tables d2 = tables d"
    and ex: "execTransfer transferService (Req_FromAccountID req) (Req_ToAccountID req)
               (Req_Amount req) d2 = (Inr res, d3)"
    and t3: "tables d' = tables d3"
    by blast
  from execTransfer_Pool_Inr [OF ex] t2 t3 obtain t1 t2' t3' t4 where
    chain: "insertTransfer (Req_FromAccountID req) (Req_ToAccountID req) (Req_Amount req)
              (tables d) = Inr (Result_Transfer res, t1)"
      "insertEntry (Req_FromAccountID req) (- Req_Amount req) t1 = Inr (Result_FromEntry res, t2')"
      "insertEntry (Req_ToAccountID req) (Req_Amount req) t2' = Inr (Result_ToEntry res, t3')"
      "updateAccountBalance (min (Req_FromAccountID req) (Req_ToAccountID req))
         (if Req_FromAccountID req < Req_ToAccountID req then - Req_Amount req
          else Req_Amount req) t3' = Inr ((), t4)"
      "updateAccountBalance (max (Req_FromAccountID req) (Req_ToAccountID req))
         (if Req_FromAccountID req < Req_ToAccountID req then Req_Amount req
          else - Req_Amount req) t4 = Inr ((), tables d')"
    by auto
  note b = transfer_balances(1,2) [OF chain ne]
  from f1 have "balanceOf (tables d) (Req_FromAccountID req) = Some (sint (Balance fromAccount))"
    by (simp add: balanceOf_def)
  moreover from f2
  have "balanceOf (tables d) (Req_ToAccountID req) = Some (sint (Balance toAccount))"
    by (simp add: balanceOf_def)
  ultimately show ?thesis using b by simp
qed

theorem CreateTransfer_conserves_balances_witness:
  "fst (CreateTransfer transferService ''alice'' (exampleRequest 1 2 300) (exampleDatabase []))
     = Inr \<lparr>Resp_ID = 1, Resp_FromAccountID = 1, Resp_ToAccountID = 2, Resp_Amount = 300\<rparr>
   \<and> Req_FromAccountID (exampleRequest 1 2 300) \<noteq> Req_ToAccountID (exampleRequest 1 2 300)
   \<and> balanceOf (tables (exampleDatabase [])) 1 = Some 1000
   \<and> balanceOf (tables (exampleDatabase [])) 2 = Some 500
   \<and> balanceOf (tables (snd (CreateTransfer transferService ''alice''
         (exampleRequest 1 2 300) (exampleDatabase [])))) 1 = Some 700
   \<and> balanceOf (tables (snd (CreateTransfer transferService ''alice''
         (exampleRequest 1 2 300) (exampleDatabase [])))) 2 = Some 800"
proof -
  let ?X = "CreateTransfer transferService ''alice'' (exampleRequest 1 2 300)
              (exampleDatabase [])"
  have r: "fst ?X = Inr \<lparr>Resp_ID = 1, Resp_FromAccountID = 1, Resp_ToAccountID = 2,
                          Resp_Amount = 300\<rparr>"
    by (simp add: run_defs)
  then have run: "?X = (Inr \<lparr>Resp_ID = 1, Resp_FromAccountID = 1, Resp_ToAccountID = 2,
                               Resp_Amount = 300\<rparr>, snd ?X)"
    by (metis prod.collapse)
  have ne: "Req_FromAccountID (exampleRequest 1 2 300) \<noteq> Req_ToAccountID (exampleRequest 1 2 300)"
    by (simp add: exampleRequest_def)
  have b1: "balanceOf (tables (exampleDatabase [])) 1 = Some 1000"
    and b2: "balanceOf (tables (exampleDatabase [])) 2 = Some 500"
    by (simp_all add: balanceOf_def example_defs)
  from CreateTransfer_conserves_balances [OF run ne] b1 b2
  have "balanceOf (tables (snd ?X)) 1 = Some 700 \<and> balanceOf (tables (snd ?X)) 2 = Some 800"
    by (simp add: exampleRequest_def)
  with r ne b1 b2 show ?thesis by simp
qed

section \<open>Atomicity of a transfer\<close>

text \<open>
  The transaction of the model does roll back: statements sent through the handle that
  \<open>Transaction\<close> passes to its function leave the committed tables as they were when
  the function fails. This is \<open>execTransfer\<close> run by a service whose repositories are
  built on that handle.
\<close>

lemma exec_Tx:
  assumes "exec Tx q run d = (r, d')"
  shows "tables d' = tables d"
  using assms
  by (auto simp: store_defs split: list.splits bool.splits sum.splits prod.splits)

lemma repositories_on_Tx:
  "TransferRepository_Create (NewRepository Tx) from to amount d = (r1, d') \<Longrightarrow>
     tables d' = tables d"
  "EntryRepository_Create (NewRepository Tx) account amount d = (r2, d') \<Longrightarrow>
     tables d' = tables d"
  "AccountRepository_UpdateBalance (NewRepository Tx) i amount d = (r3, d') \<Longrightarrow>
     tables d' = tables d"
  by (auto simp: TransferRepository_Create_def EntryRepository_Create_def
        AccountRepository_UpdateBalance_def NewRepository_def
      split: prod.splits sum.splits dest!: exec_Tx)

lemma execTransfer_on_Tx:
  assumes "execTransfer (NewTransferService (NewRepository Tx) (NewRepository Tx)
             (NewRepository Tx)) from to amount d = (r, d')"
  shows "tables d' = tables d"
  using assms
  by (auto simp: execTransfer_def addMoney_def NewTransferService_def
      split: prod.splits sum.splits if_splits dest!: repositories_on_Tx)

lemma Transaction_rolls_back:
  assumes "Transaction (\<lambda>tx. execTransfer (NewTransferService (NewRepository tx)
             (NewRepository tx) (NewRepository tx)) from to amount) d = (Inl err, d')"
  shows "tables d' = tables d"
  using assms
  by (auto simp: Transaction_def split: prod.splits sum.splits dest!: execTransfer_on_Tx)

text \<open>
  Claim C1: when \<open>CreateTransfer\<close> returns an error, no transfer row, no entry row and
  no balance change of the attempt remains, because every write of the unit of work goes
  through the transaction and is rolled back.

  The writes of \<open>execTransfer\<close> go through the repositories, which hold the handle of the
  pool, not through the handle of the transaction, which the function passed to
  \<open>Transaction\<close> ignores. Each write is committed as it is made, and the rollback has
  nothing to undo. In the example ledger alice (account 1) sends 300 to bob (account 2)
  and the driver fails on the eighth statement, the update of bob's balance:
  \<open>CreateTransfer\<close> returns a database error, and the transfer row, both entries and the
  debit of alice remain, while bob has not been credited.
\<close>

theorem CreateTransfer_error_keeps_writes:
  "CreateTransfer transferService ''alice'' (exampleRequest 1 2 300)
      (exampleDatabase [False, False, False, False, False, False, False, True]) =
     (Inl \<lparr>Code = 50002, Message = ''driver: bad connection'', HTTPStatus = 500\<rparr>,
      \<lparr>tables =
          \<lparr>accounts = [\<lparr>ID = 1, Owner = ''alice'', Balance = 700, Currency = ''USD''\<rparr>,
                       \<lparr>ID = 2, Owner = ''bob'', Balance = 500, Currency = ''USD''\<rparr>,
                       \<lparr>ID = 3, Owner = ''carol'', Balance = 200, Currency = ''EUR''\<rparr>],
           transfers = [\<lparr>Transfer_ID = 1, FromAccountID = 1, ToAccountID = 2,
                          Amount = 300\<rparr>],
           entries = [\<lparr>Entry_ID = 1, AccountID = 1, Entry_Amount = - 300\<rparr>,
                      \<lparr>Entry_ID = 2, AccountID = 2, Entry_Amount = 300\<rparr>]\<rparr>,
       txWrites = [], faults = [],
       journal = [SelectAccount 1, SelectAccount 2, InsertTransfer 1 2 300,
                  InsertEntry 1 (- 300), InsertEntry 2 300,
                  UpdateAccountBalance 1 (- 300), SelectAccount 1,
                  UpdateAccountBalance 2 300]\<rparr>)"
  by (simp add: run_defs)

section \<open>The entries of a transfer\<close>

text \<open>
  A successful \<open>CreateTransfer\<close> appends one transfer row and two entries: the first
  entry on the source with the negated amount, the second on the destination with the
  amount, which is positive.
\<close>

lemma CreateTransfer_rows:
  assumes "CreateTransfer transferService owner req d = (Inr resp, d')"
  shows "\<exists>tr fe te.
           transfers (tables d') = transfers (tables d) @ [tr]
         \<and> entries (tables d') = entries (tables d) @ [fe, te]
         \<and> resp = toTransferResponse tr
         \<and> FromAccountID tr = Req_FromAccountID req \<and> ToAccountID tr = Req_ToAccountID req
         \<and> Amount tr = Req_Amount req \<and> 0 < sint (Amount tr)
         \<and> AccountID fe = Req_FromAccountID req \<and> sint (Entry_Amount fe) = - sint (Amount tr)
         \<and> AccountID te = Req_ToAccountID req \<and> sint (Entry_Amount te) = sint (Amount tr)"
proof -
  from CreateTransfer_Inr [OF assms] obtain d2 d3 res where
    t2: "tables d2 = tables d"
    and ex: "execTransfer transferService (Req_FromAccountID req) (Req_ToAccountID req)
               (Req_Amount req) d2 = (Inr res, d3)"
    and t3: "tables d' = tables d3"
    and resp: "resp = toTransferResponse (Result_Transfer res)"
    by blast
  from execTransfer_Pool_Inr [OF ex] t2 t3 obtain t1 t2' t3' t4 where
    i: "insertTransfer (Req_FromAccountID req) (Req_ToAccountID req) (Req_Amount req)
              (tables d) = Inr (Result_Transfer res, t1)"
    and e1: "insertEntry (Req_FromAccountID req) (- Req_Amount req) t1
               = Inr (Result_FromEntry res, t2')"
    and e2: "insertEntry (Req_ToAccountID req) (Req_Amount req) t2'
               = Inr (Result_ToEntry res, t3')"
    and u1: "updateAccountBalance (min (Req_FromAccountID req) (Req_ToAccountID req))
         (if Req_FromAccountID req < Req_ToAccountID req then - Req_Amount req
          else Req_Amount req) t3' = Inr ((), t4)"
    and u2: "updateAccountBalance (max (Req_FromAccountID req) (Req_ToAccountID req))
         (if Req_FromAccountID req < Req_ToAccountID req then Req_Amount req
          else - Req_Amount req) t4 = Inr ((), tables d')"
    by auto
  note I = insertTransfer_Inr [OF i]
  note E1 = insertEntry_Inr [OF e1]
  note E2 = insertEntry_Inr [OF e2]
  note U1 = updateAccountBalance_Inr(2,3) [OF u1]
  note U2 = updateAccountBalance_Inr(2,3) [OF u2]
  have "transfers (tables d') = transfers (tables d) @ [Result_Transfer res]"
    using I(3) E1(2) E2(2) U1(1) U2(1) by simp
  moreover have "entries (tables d') =
      entries (tables d) @ [Result_FromEntry res, Result_ToEntry res]"
    using I(2) E1(3) E2(3) U1(2) U2(2) by simp
  moreover have "sint (Entry_Amount (Result_FromEntry res)) = - sint (Amount (Result_Transfer res))"
    using I(6,7) E1(5) by (simp add: sint_neg_pos)
  ultimately show ?thesis
    using resp I(4,5,6,7) E1(4) E2(4,5)
    by - (rule exI [of _ "Result_Transfer res"], rule exI [of _ "Result_FromEntry res"],
          rule exI [of _ "Result_ToEntry res"], simp)
qed

text \<open>
  Claim C4: every committed transfer of amount \<open>a\<close> has exactly two entries, \<open>- a\<close> on
  the source and \<open>a\<close> on the destination, created in the same atomic transaction as the
  transfer row.

  The rows of a transfer that succeeds are as claimed (\<open>CreateTransfer_rows\<close>), but the
  three inserts are not one atomic unit: each is committed on its own through the pool.
  In the example ledger the driver fails on the fifth statement, the insert of the second
  entry: the committed tables then hold the transfer row of amount 300 with one entry
  only, the debit of 300 on account 1.
\<close>

theorem CreateTransfer_error_leaves_transfer_with_one_entry:
  "fst (CreateTransfer transferService ''alice'' (exampleRequest 1 2 300)
          (exampleDatabase [False, False, False, False, True])) =
     Inl \<lparr>Code = 50002, Message = ''driver: bad connection'', HTTPStatus = 500\<rparr>
   \<and> tables (snd (CreateTransfer transferService ''alice'' (exampleRequest 1 2 300)
          (exampleDatabase [False, False, False, False, True]))) =
     exampleTables
       \<lparr>transfers := [\<lparr>Transfer_ID = 1, FromAccountID = 1, ToAccountID = 2, Amount = 300\<rparr>],
        entries := [\<lparr>Entry_ID = 1, AccountID = 1, Entry_Amount = - 300\<rparr>]\<rparr>"
  by (simp add: run_defs)

section \<open>Balances stay non-negative when requests are served one at a time\<close>

text \<open>
  With distinct account identifiers (the primary key) and no negative balance before the
  call, no balance is negative after a call of \<open>CreateTransfer\<close>, whether it succeeds
  or fails at any statement.
\<close>

lemma find_distinct:
  "distinct (map ID xs) \<Longrightarrow> a \<in> set xs \<Longrightarrow> find (\<lambda>x. ID x = ID a) xs = Some a"
  by (induction xs) force+

lemma nonnegative_iff:
  assumes "primary_key t"
  shows "nonnegative t \<longleftrightarrow> (\<forall>i b. balanceOf t i = Some b \<longrightarrow> 0 \<le> b)"
proof
  assume nn: "nonnegative t"
  show "\<forall>i b. balanceOf t i = Some b \<longrightarrow> 0 \<le> b"
  proof (intro allI impI)
    fix i b assume "balanceOf t i = Some b"
    then obtain a where "find (\<lambda>a. ID a = i) (accounts t) = Some a" "b = sint (Balance a)"
      by (auto simp: balanceOf_def)
    then have "a \<in> set (accounts t)" by (auto simp: find_Some_iff)
    with nn \<open>b = sint (Balance a)\<close> show "0 \<le> b"
      by (simp add: nonnegative_def list_all_iff)
  qed
next
  assume all: "\<forall>i b. balanceOf t i = Some b \<longrightarrow> 0 \<le> b"
  show "nonnegative t"
    unfolding nonnegative_def list_all_iff
  proof
    fix a assume "a \<in> set (accounts t)"
    with assms have "find (\<lambda>x. ID x = ID a) (accounts t) = Some a"
      by (simp add: primary_key_def find_distinct)
    then have "balanceOf t (ID a) = Some (sint (Balance a))" by (simp add: balanceOf_def)
    with all show "0 \<le> sint (Balance a)" by blast
  qed
qed

lemma addMoney_Pool_tables:
  assumes "addMoney transferService i1 a1 i2 a2 d = (r, d')"
  shows "tables d' = tables d \<or>
         (\<exists>t4. updateAccountBalance i1 a1 (tables d) = Inr ((), t4) \<and>
            (tables d' = t4 \<or> updateAccountBalance i2 a2 t4 = Inr ((), tables d')))"
  using assms
  by (auto simp: addMoney_def split: prod.splits sum.splits
      dest!: AccountRepository_UpdateBalance_Pool)

lemma execTransfer_Pool_tables:
  assumes "execTransfer transferService from to amount d = (r, d')"
  shows "accounts (tables d') = accounts (tables d) \<or>
         (0 < sint amount \<and>
          (\<exists>t3 t4. accounts t3 = accounts (tables d) \<and>
             updateAccountBalance (min from to) (if from < to then - amount else amount) t3
               = Inr ((), t4) \<and>
             (tables d' = t4 \<or>
              updateAccountBalance (max from to) (if from < to then amount else - amount) t4
               = Inr ((), tables d'))))"
proof -
  obtain r1 d1 where
    c1: "TransferRepository_Create (NewRepository Pool) from to amount d = (r1, d1)"
    by fastforce
  note C1 = TransferRepository_Create_Pool [OF c1]
  show ?thesis
  proof (cases r1)
    case (Inl e)
    with assms c1 have "d' = d1" by (simp add: execTransfer_def)
    with C1 Inl show ?thesis by simp
  next
    case r1: (Inr tr)
    with C1 have "insertTransfer from to amount (tables d) = Inr (tr, tables d1)" by simp
    note I = insertTransfer_Inr [OF this]
    obtain r2 d2 where
      c2: "EntryRepository_Create (NewRepository Pool) from (- amount) d1 = (r2, d2)"
      by fastforce
    note C2 = EntryRepository_Create_Pool [OF c2]
    show ?thesis
    proof (cases r2)
      case (Inl e)
      with assms c1 r1 c2 have "d' = d2" by (simp add: execTransfer_def)
      with C2 Inl I(1) show ?thesis by simp
    next
      case r2: (Inr fe)
      with C2 have "insertEntry from (- amount) (tables d1) = Inr (fe, tables d2)" by simp
      note E1 = insertEntry_Inr [OF this]
      obtain r3 d3 where
        c3: "EntryRepository_Create (NewRepository Pool) to amount d2 = (r3, d3)"
        by fastforce
      note C3 = EntryRepository_Create_Pool [OF c3]
      show ?thesis
      proof (cases r3)
        case (Inl e)
        with assms c1 r1 c2 r2 c3 have "d' = d3" by (simp add: execTransfer_def)
        with C3 Inl I(1) E1(1) show ?thesis by simp
      next
        case r3: (Inr te)
        with C3 have "insertEntry to amount (tables d2) = Inr (te, tables d3)" by simp
        note E2 = insertEntry_Inr [OF this]
        have acc: "accounts (tables d3) = accounts (tables d)"
          using I(1) E1(1) E2(1) by simp
        have "\<exists>ra. addMoney transferService (min from to)
                 (if from < to then - amount else amount)
                 (max from to) (if from < to then amount else - amount) d3 = (ra, d')"
        proof (cases "from < to")
          case True
          then have "min from to = from" "max from to = to" by simp_all
          with True assms c1 r1 c2 r2 c3 r3 show ?thesis
            by (auto simp: execTransfer_def split: prod.splits sum.splits)
        next
          case False
          then have "min from to = to" "max from to = from" by simp_all
          with False assms c1 r1 c2 r2 c3 r3 show ?thesis
            by (auto simp: execTransfer_def split: prod.splits sum.splits)
        qed
        then obtain ra where
          am: "addMoney transferService (min from to) (if from < to then - amount else amount)
                 (max from to) (if from < to then amount else - amount) d3 = (ra, d')"
          by blast
        from addMoney_Pool_tables [OF am] acc I(7) show ?thesis by auto
      qed
    qed
  qed
qed


lemma CreateTransfer_cases:
  assumes "CreateTransfer transferService owner req d = (r, d')"
  shows "tables d' = tables d \<or>
         (\<exists>fromAccount d2 d3 r'.
            find (\<lambda>a. ID a = Req_FromAccountID req) (accounts (tables d)) = Some fromAccount
          \<and> sint (Req_Amount req) \<le> sint (Balance fromAccount)
          \<and> tables d2 = tables d
          \<and> execTransfer transferService (Req_FromAccountID req) (Req_ToAccountID req)
               (Req_Amount req) d2 = (r', d3)
          \<and> tables d' = tables d3)"
proof -
  obtain g1 d1 where
    g1: "AccountRepository_GetByID (NewRepository Pool) (Req_FromAccountID req) d = (g1, d1)"
    by fastforce
  note G1 = AccountRepository_GetByID_Pool [OF g1]
  show ?thesis
  proof (cases g1)
    case (Inl e)
    with assms g1 have "d' = d1" by (simp add: CreateTransfer_def)
    with G1 show ?thesis by simp
  next
    case fa: (Inr fromAccount)
    obtain g2 d2 where
      g2: "AccountRepository_GetByID (NewRepository Pool) (Req_ToAccountID req) d1 = (g2, d2)"
      by fastforce
    note G2 = AccountRepository_GetByID_Pool [OF g2]
    show ?thesis
    proof (cases "Owner fromAccount \<noteq> owner \<or> (\<exists>e. g2 = Inl e)")
      case True
      with assms g1 fa g2 have "d' = d1 \<or> d' = d2"
        by (auto simp: CreateTransfer_def split: if_splits)
      with G1 G2 show ?thesis by auto
    next
      case False
      then obtain toAccount where ta: "g2 = Inr toAccount" and own: "Owner fromAccount = owner"
        by (cases g2) auto
      show ?thesis
      proof (cases "Currency fromAccount \<noteq> Currency toAccount
                    \<or> sint (Balance fromAccount) < sint (Req_Amount req)")
        case True
        with assms g1 fa g2 ta own have "d' = d2"
          by (auto simp: CreateTransfer_def split: if_splits)
        with G1 G2 show ?thesis by simp
      next
        case False
        with assms g1 fa g2 ta own obtain tr where
          tx: "Transaction (\<lambda>tx. execTransfer transferService (Req_FromAccountID req)
                 (Req_ToAccountID req) (Req_Amount req)) d2 = (tr, d')"
          by (auto simp: CreateTransfer_def split: prod.splits sum.splits if_splits)
        from Transaction_execTransfer [OF tx] obtain d3 where
          "execTransfer transferService (Req_FromAccountID req) (Req_ToAccountID req)
             (Req_Amount req) (d2\<lparr>txWrites := []\<rparr>) = (tr, d3)"
          and "tables d' = tables d3"
          by blast
        moreover have "tables (d2\<lparr>txWrites := []\<rparr>) = tables d" using G1 G2 by simp
        moreover have "find (\<lambda>a. ID a = Req_FromAccountID req) (accounts (tables d))
                         = Some fromAccount"
          using G1 fa by simp
        moreover have "sint (Req_Amount req) \<le> sint (Balance fromAccount)"
          using False by simp
        ultimately show ?thesis by blast
      qed
    qed
  qed
qed


lemma updateAccountBalance_keeps_nonnegative:
  assumes pk: "primary_key t" and nn: "nonnegative t"
    and ok: "\<And>b. balanceOf t i = Some b \<Longrightarrow> 0 \<le> b + sint delta"
    and u: "updateAccountBalance i delta t = Inr ((), t')"
  shows "primary_key t'" and "nonnegative t'"
proof -
  show pk': "primary_key t'"
    using pk updateAccountBalance_Inr(4) [OF u] by (simp add: primary_key_def)
  have "\<And>k b. balanceOf t' k = Some b \<Longrightarrow> 0 \<le> b"
  proof -
    fix k b assume b: "balanceOf t' k = Some b"
    show "0 \<le> b"
    proof (cases "k = i")
      case True
      with b updateAccountBalance_Inr(1) [OF u, of k]
      have "map_option (\<lambda>b. b + sint delta) (balanceOf t i) = Some b" by simp
      then obtain b0 where "balanceOf t i = Some b0" "b = b0 + sint delta"
        by (cases "balanceOf t i") auto
      with ok show ?thesis by simp
    next
      case False
      with b updateAccountBalance_Inr(1) [OF u, of k] have "balanceOf t k = Some b" by simp
      with nn pk show ?thesis by (simp add: nonnegative_iff)
    qed
  qed
  with pk' show "nonnegative t'" by (simp add: nonnegative_iff)
qed

lemma CreateTransfer_keeps_nonnegative:
  assumes pk: "primary_key (tables d)" and nn: "nonnegative (tables d)"
    and run: "CreateTransfer transferService owner req d = (r, d')"
  shows "primary_key (tables d') \<and> nonnegative (tables d')"
proof -
  let ?f = "Req_FromAccountID req" and ?t = "Req_ToAccountID req" and ?a = "Req_Amount req"
  have same: "\<And>t. accounts t = accounts (tables d) \<Longrightarrow> primary_key t \<and> nonnegative t"
    using pk nn by (simp add: primary_key_def nonnegative_def)
  from CreateTransfer_cases [OF run] show ?thesis
  proof
    assume "tables d' = tables d"
    with pk nn show ?thesis by simp
  next
    assume "\<exists>fromAccount d2 d3 r'.
            find (\<lambda>a. ID a = ?f) (accounts (tables d)) = Some fromAccount
          \<and> sint ?a \<le> sint (Balance fromAccount)
          \<and> tables d2 = tables d
          \<and> execTransfer transferService ?f ?t ?a d2 = (r', d3)
          \<and> tables d' = tables d3"
    then obtain fromAccount d2 d3 r' where
      f: "find (\<lambda>a. ID a = ?f) (accounts (tables d)) = Some fromAccount"
      and enough: "sint ?a \<le> sint (Balance fromAccount)"
      and t2: "tables d2 = tables d"
      and ex: "execTransfer transferService ?f ?t ?a d2 = (r', d3)"
      and t3: "tables d' = tables d3"
      by blast
    from execTransfer_Pool_tables [OF ex] show ?thesis
    proof
      assume "accounts (tables d3) = accounts (tables d2)"
      with t2 t3 same show ?thesis by simp
    next
      assume "0 < sint ?a \<and>
          (\<exists>t3 t4. accounts t3 = accounts (tables d2) \<and>
             updateAccountBalance (min ?f ?t) (if ?f < ?t then - ?a else ?a) t3 = Inr ((), t4) \<and>
             (tables d3 = t4 \<or>
              updateAccountBalance (max ?f ?t) (if ?f < ?t then ?a else - ?a) t4
               = Inr ((), tables d3)))"
      then obtain t3' t4 where pos: "0 < sint ?a"
        and acc: "accounts t3' = accounts (tables d)"
        and u1: "updateAccountBalance (min ?f ?t) (if ?f < ?t then - ?a else ?a) t3'
                   = Inr ((), t4)"
        and rest: "tables d3 = t4 \<or>
              updateAccountBalance (max ?f ?t) (if ?f < ?t then ?a else - ?a) t4
               = Inr ((), tables d3)"
        using t2 by auto
      have neg: "sint (- ?a) = - sint ?a" using pos by (rule sint_neg_pos)
      from same [OF acc] have pk3: "primary_key t3'" and nn3: "nonnegative t3'" by simp_all
      have bf: "balanceOf t3' ?f = Some (sint (Balance fromAccount))"
        using f acc by (simp add: balanceOf_def)
      have nonneg3: "\<And>k b. balanceOf t3' k = Some b \<Longrightarrow> 0 \<le> b"
        using nn3 pk3 by (simp add: nonnegative_iff)
      have ok1: "\<And>b. balanceOf t3' (min ?f ?t) = Some b
                  \<Longrightarrow> 0 \<le> b + sint (if ?f < ?t then - ?a else ?a)"
      proof -
        fix b assume b: "balanceOf t3' (min ?f ?t) = Some b"
        show "0 \<le> b + sint (if ?f < ?t then - ?a else ?a)"
        proof (cases "?f < ?t")
          case True
          with b bf have "b = sint (Balance fromAccount)" by simp
          with True enough neg show ?thesis by simp
        next
          case False
          with nonneg3 [OF b] pos show ?thesis by simp
        qed
      qed
      note step1 = updateAccountBalance_keeps_nonnegative [OF pk3 nn3 ok1 u1]
      from rest show ?thesis
      proof
        assume "tables d3 = t4"
        with step1 t3 show ?thesis by simp
      next
        assume u2: "updateAccountBalance (max ?f ?t) (if ?f < ?t then ?a else - ?a) t4
                      = Inr ((), tables d3)"
        have nonneg4: "\<And>k b. balanceOf t4 k = Some b \<Longrightarrow> 0 \<le> b"
          using step1 by (simp add: nonnegative_iff)
        have ok2: "\<And>b. balanceOf t4 (max ?f ?t) = Some b
                    \<Longrightarrow> 0 \<le> b + sint (if ?f < ?t then ?a else - ?a)"
        proof -
          fix b assume b: "balanceOf t4 (max ?f ?t) = Some b"
          show "0 \<le> b + sint (if ?f < ?t then ?a else - ?a)"
          proof (cases "?f < ?t")
            case True
            with nonneg4 [OF b] pos show ?thesis by simp
          next
            case False
            then have mx: "max ?f ?t = ?f" and mn: "min ?f ?t = ?t" by simp_all
            from b mx have "balanceOf t4 ?f = Some b" by simp
            with updateAccountBalance_Inr(1) [OF u1, of ?f] bf False mn pos
            have "sint (Balance fromAccount) \<le> b"
              by (auto split: if_splits)
            with False enough neg show ?thesis by simp
          qed
        qed
        from updateAccountBalance_keeps_nonnegative [OF step1 ok2 u2] t3
        show ?thesis by simp
      qed
    qed
  qed
qed

lemma serveAll_keeps_nonnegative:
  assumes "primary_key (tables d)" and "nonnegative (tables d)"
  shows "primary_key (tables (serveAll calls d)) \<and> nonnegative (tables (serveAll calls d))"
  using assms
proof (induction calls arbitrary: d)
  case Nil
  then show ?case by simp
next
  case (Cons call rest)
  obtain owner req where call: "call = (owner, req)" by (cases call)
  obtain r d' where run: "CreateTransfer transferService owner req d = (r, d')"
    by (cases "CreateTransfer transferService owner req d")
  from CreateTransfer_keeps_nonnegative [OF Cons.prems run]
  have "primary_key (tables d')" and "nonnegative (tables d')" by simp_all
  from Cons.IH [OF this] call run show ?case by simp
qed

section \<open>The balance check and concurrent requests\<close>

text \<open>
  Claim C2: when the balance of the source is below the amount by the time the
  transaction body runs, the engine detects it inside the transaction and returns
  \<open>InsufficientBalance\<close>, with a full rollback.

  The balance is compared with the amount once, before the transaction, on the row read
  by \<open>GetByID\<close> (\<open>CreateTransfer_rejects\<close>); \<open>execTransfer\<close> compares nothing, and
  the only errors it returns are database errors (\<open>execTransfer_error_code\<close>). In the
  example ledger alice holds
  1000 and two requests of 700 each from her account are served at the same time: both
  pass the checks before either transaction runs. When the transaction of the second
  request runs, the balance is 300; it succeeds all the same and leaves the balance at
  \<open>- 400\<close>.
\<close>

theorem CreateTransfer_transaction_without_balance_check:
  "twoRequests transferService ''alice'' (exampleRequest 1 2 700)
      ''alice'' (exampleRequest 1 2 700) (exampleDatabase []) =
     ((Inr \<lparr>Resp_ID = 1, Resp_FromAccountID = 1, Resp_ToAccountID = 2, Resp_Amount = 700\<rparr>,
       Inr \<lparr>Resp_ID = 2, Resp_FromAccountID = 1, Resp_ToAccountID = 2, Resp_Amount = 700\<rparr>),
      \<lparr>tables =
          \<lparr>accounts = [\<lparr>ID = 1, Owner = ''alice'', Balance = - 400, Currency = ''USD''\<rparr>,
                       \<lparr>ID = 2, Owner = ''bob'', Balance = 1900, Currency = ''USD''\<rparr>,
                       \<lparr>ID = 3, Owner = ''carol'', Balance = 200, Currency = ''EUR''\<rparr>],
           transfers = [\<lparr>Transfer_ID = 1, FromAccountID = 1, ToAccountID = 2, Amount = 700\<rparr>,
                        \<lparr>Transfer_ID = 2, FromAccountID = 1, ToAccountID = 2, Amount = 700\<rparr>],
           entries = [\<lparr>Entry_ID = 1, AccountID = 1, Entry_Amount = - 700\<rparr>,
                      \<lparr>Entry_ID = 2, AccountID = 2, Entry_Amount = 700\<rparr>,
                      \<lparr>Entry_ID = 3, AccountID = 1, Entry_Amount = - 700\<rparr>,
                      \<lparr>Entry_ID = 4, AccountID = 2, Entry_Amount = 700\<rparr>]\<rparr>,
       txWrites = [], faults = [],
       journal = [SelectAccount 1, SelectAccount 2, SelectAccount 1, SelectAccount 2,
                  InsertTransfer 1 2 700, InsertEntry 1 (- 700), InsertEntry 2 700,
                  UpdateAccountBalance 1 (- 700), SelectAccount 1,
                  UpdateAccountBalance 2 700, SelectAccount 2,
                  InsertTransfer 1 2 700, InsertEntry 1 (- 700), InsertEntry 2 700,
                  UpdateAccountBalance 1 (- 700), SelectAccount 1,
                  UpdateAccountBalance 2 700, SelectAccount 2]\<rparr>)"
  by (simp add: run_defs)

text \<open>
  Claim C5: the balance of every account is at least 0 after every committed transfer,
  because \<open>CreateTransfer\<close> rejects a transfer whose amount exceeds the balance of
  the source and the only changes of balances are the debit of the source and the credit
  of the destination.

  For requests served one after another this holds, whatever the outcome of each
  (\<open>serveAll_keeps_nonnegative\<close>). For requests served at the same time it does
  not: the balance is checked before the transaction and not again. In the example
  ledger alice holds 1000 and two requests, each of 1000 from her account to bob's, are
  served at the same time. Both pass the balance check, both transfers are committed,
  and the balance of alice is \<open>- 1000\<close>.
\<close>

theorem twoRequests_negative_balance:
  "fst (twoRequests transferService ''alice'' (exampleRequest 1 2 1000)
          ''alice'' (exampleRequest 1 2 1000) (exampleDatabase [])) =
     (Inr \<lparr>Resp_ID = 1, Resp_FromAccountID = 1, Resp_ToAccountID = 2, Resp_Amount = 1000\<rparr>,
      Inr \<lparr>Resp_ID = 2, Resp_FromAccountID = 1, Resp_ToAccountID = 2, Resp_Amount = 1000\<rparr>)
   \<and> balanceOf (tables (snd (twoRequests transferService ''alice'' (exampleRequest 1 2 1000)
          ''alice'' (exampleRequest 1 2 1000) (exampleDatabase [])))) 1 = Some (- 1000)"
  by (simp add: run_defs)

end
